theory Spec2Isabelle
  imports Main "HOL-Library.AList"
begin

section \<open>JavaScript values, parameter mappings and constant tables\<close>

text \<open>
  The values that travel through the client: what the remote API returns in the
  \<open>result\<close> field of its envelope, and what callers hand to the facade. Numbers are the
  integers the operations use (block numbers, offsets, pages) and \<open>NaN\<close>; strings are
  ASCII.
\<close>

datatype jsval =
    JUndefined
  | JNull
  | JBool bool
  | JNum int
  | JNaN
  | JStr string
  | JArr "jsval list"
  | JObj "(string \<times> jsval) list"

text \<open>
  An object literal \<open>{k1: v1, k2: v2, ...}\<close> is the list of its entries in the order
  they are written; a value may be \<open>undefined\<close>.
\<close>

type_synonym params = "(string \<times> jsval) list"

text \<open>
  The modules \<open>./constants/modules\<close>, \<open>./constants/actions\<close>, \<open>./constants/networks\<close>
  and \<open>./constants/units\<close> are imported by both clients and are taken as parameters: a
  table maps the own keys of the exported object to their values. The unit table maps a
  unit name to its power-of-ten exponent relative to wei; the clients only ever test
  membership in it.
\<close>

record tables =
  MODULES :: "string \<rightharpoonup> jsval"
  ACTIONS :: "string \<rightharpoonup> jsval"
  NETWORKS :: "string \<rightharpoonup> jsval"
  UNITS :: "string \<rightharpoonup> nat"

text \<open>\<open>TABLE.KEY\<close> and \<open>TABLE[key]\<close>: a missing property reads as \<open>undefined\<close>.\<close>

definition get_prop :: "(string \<rightharpoonup> jsval) \<Rightarrow> string \<Rightarrow> jsval" where
  "get_prop T k = (case T k of None \<Rightarrow> JUndefined | Some v \<Rightarrow> v)"

datatype error =
    InvalidUnit
  | NotANumeral
  | TypeError
  | SyntaxError
  | RemoteError string
  | TransportError string

section \<open>The environment of the clients\<close>

text \<open>
  Both clients call helpers that live outside the two source files: the request builder
  \<open>./utils/createRequest\<close> (one HTTP GET; its promise resolves with the envelope's
  \<open>result\<close>, \<open>Inr\<close>, or rejects, \<open>Inl\<close>), the unit converter \<open>./utils/etherConvert\<close>
  (it may throw), \<open>./utils/getHex\<close>, and the host's \<open>parseInt(_, 16)\<close>,
  \<open>JSON.parse\<close> and \<open>new BigNumber(_).toFixed()\<close>. The facade is modelled over any
  such environment.
\<close>

record env =
  tables :: tables
  createRequest :: "jsval \<Rightarrow> params \<Rightarrow> error + jsval"
  etherConvert :: "jsval \<Rightarrow> string \<Rightarrow> string \<Rightarrow> error + jsval"
  getHex :: "jsval \<Rightarrow> error + jsval"
  parseInt16 :: "jsval \<Rightarrow> jsval"
  JSON_parse :: "jsval \<Rightarrow> error + jsval"
  BigNumber_toFixed :: "jsval \<Rightarrow> error + jsval"

text \<open>
  What a facade method does is observable as the sequence of calls it makes to the
  request builder and to the converter, and what it hands back to its caller.
\<close>

datatype event =
    Request jsval params
  | Convert jsval string string

text \<open>
  A computation is the trace of its calls together with its outcome: \<open>Inl\<close> for a
  thrown exception or a rejected promise, \<open>Inr\<close> for the value.
\<close>

type_synonym 'a eff = "event list \<times> (error + 'a)"

definition createRequest_call :: "env \<Rightarrow> jsval \<Rightarrow> params \<Rightarrow> jsval eff" where
  "createRequest_call E h ps = ([Request h ps], createRequest E h ps)"

definition etherConvert_call :: "env \<Rightarrow> jsval \<Rightarrow> string \<Rightarrow> string \<Rightarrow> jsval eff" where
  "etherConvert_call E v from to = ([Convert v from to], etherConvert E v from to)"

definition pure_call :: "(error + 'a) \<Rightarrow> 'a eff" where
  "pure_call r = ([], r)"

text \<open>
  \<open>p.then(f)\<close>, and \<open>f(await p)\<close> in an async function: a rejection skips the callback,
  an exception in the callback rejects the resulting promise.
\<close>

definition then_eff :: "'a eff \<Rightarrow> ('a \<Rightarrow> 'b eff) \<Rightarrow> 'b eff" where
  "then_eff p f =
     (case snd p of
        Inl e \<Rightarrow> (fst p, Inl e)
      | Inr v \<Rightarrow> (fst p @ fst (f v), snd (f v)))"

text \<open>
  What the caller of a method gets: the method throws before any promise exists, it
  returns nothing (\<open>undefined\<close>), or it returns a promise with the given outcome.
\<close>

datatype outcome =
    Throws error
  | ReturnsUndefined
  | ReturnsPromise "error + jsval"

type_synonym result = "event list \<times> outcome"

definition returns :: "jsval eff \<Rightarrow> result" where
  "returns p = (fst p, ReturnsPromise (snd p))"

definition discards :: "jsval eff \<Rightarrow> result" where
  "discards p = (fst p, ReturnsUndefined)"

text \<open>
  Arguments computed by a helper that may throw are evaluated before the request is
  made; an exception there leaves the method without issuing anything.
\<close>

definition with_arg :: "(error + jsval) \<Rightarrow> (jsval \<Rightarrow> result) \<Rightarrow> result" where
  "with_arg a k = (case a of Inl e \<Rightarrow> ([], Throws e) | Inr v \<Rightarrow> k v)"

text \<open>
  A parameter with a default value takes it when the argument is left out or is
  \<open>undefined\<close>. String arguments that may be left out are options.
\<close>

definition default_arg :: "'a \<Rightarrow> 'a option \<Rightarrow> 'a" where
  "default_arg d a = (case a of None \<Rightarrow> d | Some v \<Rightarrow> v)"

definition default_val :: "jsval \<Rightarrow> jsval \<Rightarrow> jsval" where
  "default_val d a = (if a = JUndefined then d else a)"

text \<open>A key of a table: an own property of the exported object.\<close>

definition in_table :: "('k \<rightharpoonup> 'v) \<Rightarrow> 'k \<Rightarrow> bool" where
  "in_table T k = (T k \<noteq> None)"

text \<open>
  \<open>key in TABLE\<close>. The tables are plain objects, so the operator is also true of the
  names every object inherits from \<open>Object.prototype\<close>.
\<close>

definition Object_prototype_names :: "string list" where
  "Object_prototype_names =
     [''constructor'', ''hasOwnProperty'', ''isPrototypeOf'', ''propertyIsEnumerable'',
      ''toLocaleString'', ''toString'', ''valueOf'', ''__proto__'', ''__defineGetter__'',
      ''__defineSetter__'', ''__lookupGetter__'', ''__lookupSetter__'']"

definition js_in :: "string \<Rightarrow> (string \<rightharpoonup> 'v) \<Rightarrow> bool" where
  "js_in k T = (List.member Object_prototype_names k \<or> in_table T k)"

text \<open>
  \<open>item.key\<close> on a value of the response: reading a property of \<open>undefined\<close> or
  \<open>null\<close> throws, an object yields the entry (its keys are distinct), anything else has
  no such property.
\<close>

definition member :: "jsval \<Rightarrow> string \<Rightarrow> error + jsval" where
  "member v k =
     (case v of
        JUndefined \<Rightarrow> Inl TypeError
      | JNull \<Rightarrow> Inl TypeError
      | JObj ps \<Rightarrow> Inr (case map_of ps k of None \<Rightarrow> JUndefined | Some x \<Rightarrow> x)
      | _ \<Rightarrow> Inr JUndefined)"

text \<open>\<open>xs.map(f)\<close> where the callback may call the converter and may throw.\<close>

fun map_eff :: "('a \<Rightarrow> 'b eff) \<Rightarrow> 'a list \<Rightarrow> 'b list eff" where
  "map_eff f [] = ([], Inr [])"
| "map_eff f (x # xs) =
     then_eff (f x) (\<lambda>y. then_eff (map_eff f xs) (\<lambda>ys. pure_call (Inr (y # ys))))"

section \<open>Strings\<close>

text \<open>\<open>String.prototype.toUpperCase\<close> on ASCII text.\<close>

definition toUpperCase_char :: "char \<Rightarrow> char" where
  "toUpperCase_char c =
     (let n = (of_char c :: int) in if 97 \<le> n \<and> n \<le> 122 then char_of (n - 32) else c)"

definition toUpperCase :: "string \<Rightarrow> string" where
  "toUpperCase s = map toUpperCase_char s"

text \<open>\<open>Array.prototype.join\<close> on an array of strings.\<close>

fun join :: "string \<Rightarrow> string list \<Rightarrow> string" where
  "join sep [] = []"
| "join sep [x] = x"
| "join sep (x # y # ys) = x @ sep @ join sep (y # ys)"

text \<open>
  Digits of a non-negative integer in a base between 2 and 16, most significant first.
\<close>

definition digit_char :: "int \<Rightarrow> char" where
  "digit_char d = (if d < 10 then char_of (48 + d) else char_of (87 + d))"

function digits_base :: "int \<Rightarrow> int \<Rightarrow> string" where
  "digits_base b n =
     (if b < 2 \<or> n < b then [digit_char n]
      else digits_base b (n div b) @ [digit_char (n mod b)])"
  by pat_completeness auto
termination
  by (relation "measure (\<lambda>(b, n). nat n)") (auto simp: int_div_less_self)

declare digits_base.simps [simp del]

text \<open>\<open>Number.prototype.toString(radix)\<close> on an integer.\<close>

definition toString_radix :: "int \<Rightarrow> int \<Rightarrow> string" where
  "toString_radix b i =
     (if i < 0 then CHR ''-'' # digits_base b (- i) else digits_base b i)"

section \<open>The JavaScript client (\<open>src/EtherscanApi.js\<close>)\<close>

record client =
  token :: string
  network :: string
  host :: jsval

abbreviation MODULE :: "env \<Rightarrow> string \<Rightarrow> jsval" where
  "MODULE E k \<equiv> get_prop (MODULES (tables E)) k"

abbreviation ACTION :: "env \<Rightarrow> string \<Rightarrow> jsval" where
  "ACTION E k \<equiv> get_prop (ACTIONS (tables E)) k"

definition js_constructor :: "tables \<Rightarrow> string option \<Rightarrow> string option \<Rightarrow> client" where
  "js_constructor K token_arg networkName_arg =
     (let token = default_arg [] token_arg;
          networkName = default_arg ''MAIN'' networkName_arg;
          netName = toUpperCase networkName;
          network = (if js_in netName (NETWORKS K) then netName else ''MAIN'')
      in \<lparr>token = token, network = network, host = get_prop (NETWORKS K) network\<rparr>)"

text \<open>
  \<open>_createRequest\<close>: the spread copies the entries in order, and \<open>apikey\<close> is then
  written over an entry of that name or added last.
\<close>

definition js_createRequest :: "env \<Rightarrow> client \<Rightarrow> params \<Rightarrow> jsval eff" where
  "js_createRequest E c ps =
     createRequest_call E (host c) (AList.update ''apikey'' (JStr (token c)) ps)"

definition js_getAccountBalance ::
  "env \<Rightarrow> client \<Rightarrow> jsval \<Rightarrow> string option \<Rightarrow> jsval \<Rightarrow> result" where
  "js_getAccountBalance E c address unit_arg tag_arg =
     (let unit = default_arg ''wei'' unit_arg;
          tag = default_val (JStr ''latest'') tag_arg
      in returns (then_eff
           (js_createRequest E c
              [(''module'', MODULE E ''ACCOUNT''),
               (''action'', ACTION E ''GET_BALANCE''),
               (''tag'', tag),
               (''address'', address)])
           (\<lambda>resp.
              if unit = ''wei'' \<or> \<not> js_in unit (UNITS (tables E))
              then pure_call (Inr resp)
              else etherConvert_call E resp ''wei'' unit)))"

text \<open>The callback of \<open>resp.map\<close> in \<open>getAccountBalances\<close>.\<close>

definition convert_item :: "env \<Rightarrow> string \<Rightarrow> jsval \<Rightarrow> jsval eff" where
  "convert_item E unit item =
     then_eff (pure_call (member item ''account'')) (\<lambda>account.
     then_eff (pure_call (member item ''balance'')) (\<lambda>balance.
     then_eff (etherConvert_call E balance ''wei'' unit) (\<lambda>converted.
     pure_call (Inr (JObj [(''account'', account), (''balance'', converted)])))))"

definition convert_items :: "env \<Rightarrow> string \<Rightarrow> jsval \<Rightarrow> jsval eff" where
  "convert_items E unit resp =
     (case resp of
        JArr items \<Rightarrow>
          then_eff (map_eff (convert_item E unit) items) (\<lambda>ys. pure_call (Inr (JArr ys)))
      | _ \<Rightarrow> pure_call (Inl TypeError))"

definition js_getAccountBalances ::
  "env \<Rightarrow> client \<Rightarrow> string list \<Rightarrow> string option \<Rightarrow> jsval \<Rightarrow> result" where
  "js_getAccountBalances E c addresses unit_arg tag_arg =
     (let unit = default_arg ''wei'' unit_arg;
          tag = default_val (JStr ''latest'') tag_arg
      in returns (then_eff
           (js_createRequest E c
              [(''apikey'', JStr (token c)),
               (''module'', MODULE E ''ACCOUNT''),
               (''action'', ACTION E ''GET_BALANCE_MULTI''),
               (''address'', JStr (join '','' addresses)),
               (''tag'', tag)])
           (\<lambda>resp.
              if unit = ''wei'' \<or> \<not> js_in unit (UNITS (tables E))
              then pure_call (Inr resp)
              else convert_items E unit resp)))"

definition js_getTransactions ::
  "env \<Rightarrow> client \<Rightarrow> jsval \<Rightarrow> jsval \<Rightarrow> jsval \<Rightarrow> jsval \<Rightarrow> jsval \<Rightarrow> jsval \<Rightarrow> result" where
  "js_getTransactions E c address startBlock endBlock offset page sort' =
     returns (js_createRequest E c
       [(''module'', MODULE E ''ACCOUNT''),
        (''action'', ACTION E ''GET_TRANSACTIONS_LIST''),
        (''address'', address),
        (''endblock'', endBlock),
        (''startblock'', startBlock),
        (''offset'', offset),
        (''page'', page),
        (''sort'', sort')])"

definition js_getInternalTransactions ::
  "env \<Rightarrow> client \<Rightarrow> jsval \<Rightarrow> jsval \<Rightarrow> jsval \<Rightarrow> jsval \<Rightarrow> jsval \<Rightarrow> jsval \<Rightarrow> result" where
  "js_getInternalTransactions E c address startBlock endBlock offset page sort' =
     returns (js_createRequest E c
       [(''module'', MODULE E ''ACCOUNT''),
        (''action'', ACTION E ''GET_TRANSACTIONS_LIST_INTERNAL''),
        (''address'', address),
        (''endblock'', endBlock),
        (''startblock'', startBlock),
        (''offset'', offset),
        (''page'', page),
        (''sort'', sort')])"

definition js_getInternalTransactionsByHash :: "env \<Rightarrow> client \<Rightarrow> jsval \<Rightarrow> result" where
  "js_getInternalTransactionsByHash E c txhash =
     returns (js_createRequest E c
       [(''module'', MODULE E ''ACCOUNT''),
        (''action'', ACTION E ''GET_TRANSACTIONS_LIST_INTERNAL''),
        (''txhash'', txhash)])"

definition js_getMinedBlocks ::
  "env \<Rightarrow> client \<Rightarrow> jsval \<Rightarrow> jsval \<Rightarrow> jsval \<Rightarrow> jsval \<Rightarrow> result" where
  "js_getMinedBlocks E c address type_arg offset page =
     (let type = default_val (JStr ''blocks'') type_arg
      in returns (js_createRequest E c
           [(''module'', MODULE E ''ACCOUNT''),
            (''action'', ACTION E ''GET_MINED_BLOCKS''),
            (''blocktype'', type),
            (''address'', address),
            (''offset'', offset),
            (''page'', page)]))"

definition js_getContractAbi :: "env \<Rightarrow> client \<Rightarrow> jsval \<Rightarrow> result" where
  "js_getContractAbi E c address =
     returns (then_eff
       (js_createRequest E c
          [(''module'', MODULE E ''CONTRACT''),
           (''action'', ACTION E ''GET_ABI''),
           (''address'', address)])
       (\<lambda>resp. pure_call (JSON_parse E resp)))"

definition js_getContractExecutionStatus :: "env \<Rightarrow> client \<Rightarrow> jsval \<Rightarrow> result" where
  "js_getContractExecutionStatus E c txhash =
     returns (js_createRequest E c
       [(''module'', MODULE E ''TRANSACTION''),
        (''action'', ACTION E ''GET_CONTRACT_STATUS''),
        (''txhash'', txhash)])"

definition js_getTransactionStatus :: "env \<Rightarrow> client \<Rightarrow> jsval \<Rightarrow> result" where
  "js_getTransactionStatus E c txhash =
     returns (js_createRequest E c
       [(''module'', MODULE E ''TRANSACTION''),
        (''action'', ACTION E ''GET_TRANSACTION_STATUS''),
        (''txhash'', txhash)])"

definition js_getBlockReward :: "env \<Rightarrow> client \<Rightarrow> jsval \<Rightarrow> result" where
  "js_getBlockReward E c blockNumber =
     returns (js_createRequest E c
       [(''module'', MODULE E ''BLOCK''),
        (''action'', ACTION E ''GET_BLOCK_REWARD''),
        (''blockno'', blockNumber)])"

definition js_getEventsLogs ::
  "env \<Rightarrow> client \<Rightarrow> jsval \<Rightarrow> jsval \<Rightarrow> jsval \<Rightarrow> jsval \<Rightarrow> jsval \<Rightarrow> jsval \<Rightarrow> jsval \<Rightarrow> jsval \<Rightarrow>
   jsval \<Rightarrow> jsval \<Rightarrow> jsval \<Rightarrow> result" where
  "js_getEventsLogs E c address fromBlock toBlock topic0 topic01operator topic1
     topic12operator topic2 topic23operator topic3 topic02operator =
     returns (js_createRequest E c
       [(''module'', MODULE E ''LOGS''),
        (''action'', ACTION E ''GET_LOGS''),
        (''fromBlock'', fromBlock),
        (''toBlock'', toBlock),
        (''topic0'', topic0),
        (''topic0_1_opr'', topic01operator),
        (''topic1'', topic1),
        (''topic1_2_opr'', topic12operator),
        (''topic2'', topic2),
        (''topic2_3_opr'', topic23operator),
        (''topic3'', topic3),
        (''topic0_2_opr'', topic02operator)])"

definition js_getRecentBlockNumber :: "env \<Rightarrow> client \<Rightarrow> result" where
  "js_getRecentBlockNumber E c =
     returns (then_eff
       (js_createRequest E c
          [(''module'', MODULE E ''PROXY''),
           (''action'', ACTION E ''GET_RECENT_BLOCK_NUMBER'')])
       (\<lambda>blockNumberHex. pure_call (Inr (parseInt16 E blockNumberHex))))"

definition js_getBlockByNumber :: "env \<Rightarrow> client \<Rightarrow> int \<Rightarrow> result" where
  "js_getBlockByNumber E c blockNumber =
     returns (js_createRequest E c
       [(''module'', MODULE E ''PROXY''),
        (''action'', ACTION E ''GET_BLOCK_BY_NUMBER''),
        (''tag'', JStr (''0x'' @ toString_radix 16 blockNumber)),
        (''boolean'', JStr ''true'')])"

definition js_getUncleByBlockNumberAndIndex ::
  "env \<Rightarrow> client \<Rightarrow> jsval \<Rightarrow> jsval \<Rightarrow> result" where
  "js_getUncleByBlockNumberAndIndex E c blockNumber index_arg =
     (let index = default_val (JNum 0) index_arg
      in with_arg (getHex E blockNumber) (\<lambda>tag.
         with_arg (getHex E index) (\<lambda>idx.
         returns (js_createRequest E c
           [(''module'', MODULE E ''PROXY''),
            (''action'', ACTION E ''GET_UNCLE_BLOCK_NUMBER_AND_INDEX''),
            (''tag'', tag),
            (''index'', idx)]))))"

definition js_getBlockTransactionCount :: "env \<Rightarrow> client \<Rightarrow> jsval \<Rightarrow> result" where
  "js_getBlockTransactionCount E c blockNumber =
     with_arg (getHex E blockNumber) (\<lambda>tag.
     returns (then_eff
       (js_createRequest E c
          [(''module'', MODULE E ''PROXY''),
           (''action'', ACTION E ''GET_BLOCK_TX_COUNT_BY_NUMBER''),
           (''tag'', tag)])
       (\<lambda>countHex. pure_call (Inr (parseInt16 E countHex)))))"

definition js_getTransactionByHash :: "env \<Rightarrow> client \<Rightarrow> jsval \<Rightarrow> result" where
  "js_getTransactionByHash E c txhash =
     returns (js_createRequest E c
       [(''module'', MODULE E ''PROXY''),
        (''action'', ACTION E ''GET_TRANSACTION_BY_HASH''),
        (''txhash'', txhash)])"

definition js_getTransactionByBlockNumberAndIndex ::
  "env \<Rightarrow> client \<Rightarrow> jsval \<Rightarrow> jsval \<Rightarrow> result" where
  "js_getTransactionByBlockNumberAndIndex E c blockNumber index_arg =
     (let index = default_val (JNum 0) index_arg
      in with_arg (getHex E blockNumber) (\<lambda>tag.
         with_arg (getHex E index) (\<lambda>idx.
         returns (js_createRequest E c
           [(''module'', MODULE E ''PROXY''),
            (''action'', ACTION E ''GET_TX_BY_BLOCK_NUMBER_AND_INDEX''),
            (''tag'', tag),
            (''index'', idx)]))))"

definition js_getTransactionCount :: "env \<Rightarrow> client \<Rightarrow> jsval \<Rightarrow> jsval \<Rightarrow> result" where
  "js_getTransactionCount E c address tag_arg =
     (let tag = default_val (JStr ''latest'') tag_arg
      in returns (then_eff
           (js_createRequest E c
              [(''module'', MODULE E ''PROXY''),
               (''action'', ACTION E ''GET_TRANSACTION_COUNT''),
               (''tag'', tag),
               (''address'', address)])
           (\<lambda>countHex. pure_call (Inr (parseInt16 E countHex)))))"

text \<open>
  \<open>sendRawTransaction\<close> and \<open>estimateGas\<close> call \<open>_createRequest\<close> in a statement of
  its own: the promise is not returned.
\<close>

definition js_sendRawTransaction :: "env \<Rightarrow> client \<Rightarrow> jsval \<Rightarrow> result" where
  "js_sendRawTransaction E c hex =
     discards (js_createRequest E c
       [(''module'', MODULE E ''PROXY''),
        (''action'', ACTION E ''SEND_RAW_TRANSACTION''),
        (''hex'', hex)])"

definition js_getTransactionReceipt :: "env \<Rightarrow> client \<Rightarrow> jsval \<Rightarrow> result" where
  "js_getTransactionReceipt E c txhash =
     returns (js_createRequest E c
       [(''module'', MODULE E ''PROXY''),
        (''action'', ACTION E ''GET_TRANSACTION_RECEIPT''),
        (''txhash'', txhash)])"

definition js_call :: "env \<Rightarrow> client \<Rightarrow> jsval \<Rightarrow> jsval \<Rightarrow> jsval \<Rightarrow> result" where
  "js_call E c to data tag_arg =
     (let tag = default_val (JStr ''latest'') tag_arg
      in returns (js_createRequest E c
           [(''module'', MODULE E ''PROXY''),
            (''action'', ACTION E ''CALL''),
            (''tag'', tag),
            (''to'', to),
            (''data'', data)]))"

definition js_getCode :: "env \<Rightarrow> client \<Rightarrow> jsval \<Rightarrow> jsval \<Rightarrow> result" where
  "js_getCode E c address tag_arg =
     (let tag = default_val (JStr ''latest'') tag_arg
      in returns (js_createRequest E c
           [(''module'', MODULE E ''PROXY''),
            (''action'', ACTION E ''GET_CODE''),
            (''address'', address),
            (''tag'', tag)]))"

definition js_getStorageAt :: "env \<Rightarrow> client \<Rightarrow> jsval \<Rightarrow> jsval \<Rightarrow> jsval \<Rightarrow> result" where
  "js_getStorageAt E c address position tag_arg =
     (let tag = default_val (JStr ''latest'') tag_arg
      in with_arg (getHex E position) (\<lambda>pos.
         returns (js_createRequest E c
           [(''module'', MODULE E ''PROXY''),
            (''action'', ACTION E ''GET_STORAGE_AT''),
            (''address'', address),
            (''position'', pos),
            (''tag'', tag)])))"

definition js_getGasPrice :: "env \<Rightarrow> client \<Rightarrow> string option \<Rightarrow> result" where
  "js_getGasPrice E c unit_arg =
     (let unit = default_arg ''wei'' unit_arg
      in returns (then_eff
           (js_createRequest E c
              [(''module'', MODULE E ''PROXY''),
               (''action'', ACTION E ''GET_GAS_PRICE'')])
           (\<lambda>priceHex.
              then_eff (pure_call (BigNumber_toFixed E priceHex)) (\<lambda>priceFixed.
                if unit = ''wei'' then pure_call (Inr priceFixed)
                else etherConvert_call E priceFixed ''wei'' unit))))"

definition js_estimateGas ::
  "env \<Rightarrow> client \<Rightarrow> jsval \<Rightarrow> jsval \<Rightarrow> jsval \<Rightarrow> jsval \<Rightarrow> result" where
  "js_estimateGas E c to val gasPrice gas =
     discards (js_createRequest E c
       [(''module'', MODULE E ''PROXY''),
        (''action'', ACTION E ''ESTIMATE_GAS''),
        (''to'', to),
        (''value'', val),
        (''gasPrice'', gasPrice),
        (''gas'', gas)])"

definition js_getTokenByContractAddress :: "env \<Rightarrow> client \<Rightarrow> jsval \<Rightarrow> result" where
  "js_getTokenByContractAddress E c contractAddress =
     returns (js_createRequest E c
       [(''module'', MODULE E ''STATS''),
        (''action'', ACTION E ''GET_TOKEN_BY_CONTRACT''),
        (''contractaddress'', contractAddress)])"

definition js_getTokenBalanceByContractAddress ::
  "env \<Rightarrow> client \<Rightarrow> jsval \<Rightarrow> jsval \<Rightarrow> jsval \<Rightarrow> result" where
  "js_getTokenBalanceByContractAddress E c contractAddress address tag_arg =
     (let tag = default_val (JStr ''latest'') tag_arg
      in returns (js_createRequest E c
           [(''module'', MODULE E ''ACCOUNT''),
            (''action'', ACTION E ''GET_TOKEN_BALANCE_BY_CONTRACT''),
            (''contractaddress'', contractAddress),
            (''address'', address),
            (''tag'', tag)]))"

definition js_getTotalEtherSupply :: "env \<Rightarrow> client \<Rightarrow> result" where
  "js_getTotalEtherSupply E c =
     returns (js_createRequest E c
       [(''module'', MODULE E ''STATS''),
        (''action'', ACTION E ''GET_TOTAL_ETHER_SUPPLY'')])"

definition js_getEtherLastPrice :: "env \<Rightarrow> client \<Rightarrow> result" where
  "js_getEtherLastPrice E c =
     returns (js_createRequest E c
       [(''module'', MODULE E ''STATS''),
        (''action'', ACTION E ''GET_LAST_ETHER_PRICE'')])"

section \<open>The TypeScript client (\<open>src/index.ts\<close>)\<close>

text \<open>
  Every method is \<open>async\<close>: it returns a promise, and \<open>await\<close> followed by the rest of
  the body is \<open>then\<close>.
\<close>

definition ts_constructor :: "tables \<Rightarrow> string option \<Rightarrow> string option \<Rightarrow> client" where
  "ts_constructor K token_arg network_arg =
     (let token = default_arg ''YourApiKeyToken'' token_arg;
          network = default_arg ''MAIN'' network_arg;
          netName = toUpperCase network;
          network' = (if js_in netName (NETWORKS K) then netName else ''MAIN'')
      in \<lparr>token = token, network = network', host = get_prop (NETWORKS K) network'\<rparr>)"

definition ts_createRequest :: "env \<Rightarrow> client \<Rightarrow> params \<Rightarrow> jsval eff" where
  "ts_createRequest E c ps =
     createRequest_call E (host c) (AList.update ''apikey'' (JStr (token c)) ps)"

definition ts_getAccountBalance ::
  "env \<Rightarrow> client \<Rightarrow> jsval \<Rightarrow> string option \<Rightarrow> result" where
  "ts_getAccountBalance E c address unit_arg =
     (let unit = default_arg ''wei'' unit_arg
      in returns (then_eff
           (ts_createRequest E c
              [(''module'', MODULE E ''ACCOUNT''),
               (''action'', ACTION E ''BALANCE''),
               (''tag'', JStr ''latest''),
               (''address'', address)])
           (\<lambda>resp.
              if unit = ''wei'' \<or> \<not> js_in unit (UNITS (tables E))
              then pure_call (Inr resp)
              else etherConvert_call E resp ''wei'' unit)))"

definition ts_getAccountBalances ::
  "env \<Rightarrow> client \<Rightarrow> string list \<Rightarrow> string option \<Rightarrow> result" where
  "ts_getAccountBalances E c addresses unit_arg =
     (let unit = default_arg ''wei'' unit_arg
      in returns (then_eff
           (ts_createRequest E c
              [(''apikey'', JStr (token c)),
               (''module'', MODULE E ''ACCOUNT''),
               (''action'', ACTION E ''BALANCE_MULTI''),
               (''tag'', JStr ''latest''),
               (''address'', JStr (join '','' addresses))])
           (\<lambda>resp.
              if unit = ''wei'' \<or> \<not> js_in unit (UNITS (tables E))
              then pure_call (Inr resp)
              else convert_items E unit resp)))"

definition ts_getTransactions ::
  "env \<Rightarrow> client \<Rightarrow> jsval \<Rightarrow> jsval \<Rightarrow> jsval \<Rightarrow> jsval \<Rightarrow> jsval \<Rightarrow> jsval \<Rightarrow> result" where
  "ts_getTransactions E c address startBlock endBlock offset page sort' =
     returns (ts_createRequest E c
       [(''action'', MODULE E ''ACCOUNT''),
        (''module'', ACTION E ''TRANSACTIONS_LIST''),
        (''address'', address),
        (''endblock'', endBlock),
        (''startblock'', startBlock),
        (''offset'', offset),
        (''page'', page),
        (''sort'', sort')])"

definition ts_getInternalTransactions ::
  "env \<Rightarrow> client \<Rightarrow> jsval \<Rightarrow> jsval \<Rightarrow> jsval \<Rightarrow> jsval \<Rightarrow> jsval \<Rightarrow> jsval \<Rightarrow> result" where
  "ts_getInternalTransactions E c address startBlock endBlock offset page sort' =
     returns (ts_createRequest E c
       [(''action'', MODULE E ''ACCOUNT''),
        (''module'', ACTION E ''TRANSACTIONS_LIST_INTERNAL''),
        (''address'', address),
        (''endblock'', endBlock),
        (''startblock'', startBlock),
        (''offset'', offset),
        (''page'', page),
        (''sort'', sort')])"

definition ts_getInternalTransactionsByHash :: "env \<Rightarrow> client \<Rightarrow> jsval \<Rightarrow> result" where
  "ts_getInternalTransactionsByHash E c transactionHash =
     returns (ts_createRequest E c
       [(''action'', MODULE E ''ACCOUNT''),
        (''module'', ACTION E ''TRANSACTIONS_LIST_INTERNAL''),
        (''txhash'', transactionHash)])"

definition ts_getMinedBlock :: "env \<Rightarrow> client \<Rightarrow> jsval \<Rightarrow> jsval \<Rightarrow> jsval \<Rightarrow> result" where
  "ts_getMinedBlock E c address offset page =
     returns (ts_createRequest E c
       [(''action'', MODULE E ''ACCOUNT''),
        (''module'', ACTION E ''TRANSACTIONS_LIST_INTERNAL''),
        (''address'', address),
        (''offset'', offset),
        (''page'', page)])"

definition ts_getContractAbi :: "env \<Rightarrow> client \<Rightarrow> jsval \<Rightarrow> result" where
  "ts_getContractAbi E c address =
     returns (then_eff
       (ts_createRequest E c
          [(''module'', MODULE E ''CONTRACT''),
           (''action'', ACTION E ''GET_ABI''),
           (''address'', address)])
       (\<lambda>resp. pure_call (JSON_parse E resp)))"

definition ts_getContractExecutionStatus :: "env \<Rightarrow> client \<Rightarrow> jsval \<Rightarrow> result" where
  "ts_getContractExecutionStatus E c txhash =
     returns (then_eff
       (ts_createRequest E c
          [(''module'', MODULE E ''TRANSACTION''),
           (''action'', ACTION E ''GET_CONTRACT_STATUS''),
           (''txhash'', txhash)])
       (\<lambda>resp. pure_call (Inr resp)))"

definition ts_getTransactionStatus :: "env \<Rightarrow> client \<Rightarrow> jsval \<Rightarrow> result" where
  "ts_getTransactionStatus E c txhash =
     returns (ts_createRequest E c
       [(''module'', MODULE E ''TRANSACTION''),
        (''action'', ACTION E ''GET_TRANSACTION_STATUS''),
        (''txhash'', txhash)])"

section \<open>The public operations\<close>

text \<open>
  One constructor for each public method of a client, with the arguments of the call.
\<close>

datatype js_operation =
    GetAccountBalance jsval "string option" jsval
  | GetAccountBalances "string list" "string option" jsval
  | GetTransactions jsval jsval jsval jsval jsval jsval
  | GetInternalTransactions jsval jsval jsval jsval jsval jsval
  | GetInternalTransactionsByHash jsval
  | GetMinedBlocks jsval jsval jsval jsval
  | GetContractAbi jsval
  | GetContractExecutionStatus jsval
  | GetTransactionStatus jsval
  | GetBlockReward jsval
  | GetEventsLogs jsval jsval jsval jsval jsval jsval jsval jsval jsval jsval jsval
  | GetRecentBlockNumber
  | GetBlockByNumber int
  | GetUncleByBlockNumberAndIndex jsval jsval
  | GetBlockTransactionCount jsval
  | GetTransactionByHash jsval
  | GetTransactionByBlockNumberAndIndex jsval jsval
  | GetTransactionCount jsval jsval
  | SendRawTransaction jsval
  | GetTransactionReceipt jsval
  | Call jsval jsval jsval
  | GetCode jsval jsval
  | GetStorageAt jsval jsval jsval
  | GetGasPrice "string option"
  | EstimateGas jsval jsval jsval jsval
  | GetTokenByContractAddress jsval
  | GetTokenBalanceByContractAddress jsval jsval jsval
  | GetTotalEtherSupply
  | GetEtherLastPrice

fun js_perform :: "env \<Rightarrow> client \<Rightarrow> js_operation \<Rightarrow> result" where
  "js_perform E c (GetAccountBalance a u t) = js_getAccountBalance E c a u t"
| "js_perform E c (GetAccountBalances as u t) = js_getAccountBalances E c as u t"
| "js_perform E c (GetTransactions a s e off p so) = js_getTransactions E c a s e off p so"
| "js_perform E c (GetInternalTransactions a s e off p so) =
     js_getInternalTransactions E c a s e off p so"
| "js_perform E c (GetInternalTransactionsByHash h) = js_getInternalTransactionsByHash E c h"
| "js_perform E c (GetMinedBlocks a ty off p) = js_getMinedBlocks E c a ty off p"
| "js_perform E c (GetContractAbi a) = js_getContractAbi E c a"
| "js_perform E c (GetContractExecutionStatus h) = js_getContractExecutionStatus E c h"
| "js_perform E c (GetTransactionStatus h) = js_getTransactionStatus E c h"
| "js_perform E c (GetBlockReward b) = js_getBlockReward E c b"
| "js_perform E c (GetEventsLogs a fb tb t0 o01 t1 o12 t2 o23 t3 o02) =
     js_getEventsLogs E c a fb tb t0 o01 t1 o12 t2 o23 t3 o02"
| "js_perform E c GetRecentBlockNumber = js_getRecentBlockNumber E c"
| "js_perform E c (GetBlockByNumber b) = js_getBlockByNumber E c b"
| "js_perform E c (GetUncleByBlockNumberAndIndex b i) =
     js_getUncleByBlockNumberAndIndex E c b i"
| "js_perform E c (GetBlockTransactionCount b) = js_getBlockTransactionCount E c b"
| "js_perform E c (GetTransactionByHash h) = js_getTransactionByHash E c h"
| "js_perform E c (GetTransactionByBlockNumberAndIndex b i) =
     js_getTransactionByBlockNumberAndIndex E c b i"
| "js_perform E c (GetTransactionCount a t) = js_getTransactionCount E c a t"
| "js_perform E c (SendRawTransaction h) = js_sendRawTransaction E c h"
| "js_perform E c (GetTransactionReceipt h) = js_getTransactionReceipt E c h"
| "js_perform E c (Call to d t) = js_call E c to d t"
| "js_perform E c (GetCode a t) = js_getCode E c a t"
| "js_perform E c (GetStorageAt a p t) = js_getStorageAt E c a p t"
| "js_perform E c (GetGasPrice u) = js_getGasPrice E c u"
| "js_perform E c (EstimateGas to v gp g) = js_estimateGas E c to v gp g"
| "js_perform E c (GetTokenByContractAddress ca) = js_getTokenByContractAddress E c ca"
| "js_perform E c (GetTokenBalanceByContractAddress ca a t) =
     js_getTokenBalanceByContractAddress E c ca a t"
| "js_perform E c GetTotalEtherSupply = js_getTotalEtherSupply E c"
| "js_perform E c GetEtherLastPrice = js_getEtherLastPrice E c"

datatype ts_operation =
    TsGetAccountBalance jsval "string option"
  | TsGetAccountBalances "string list" "string option"
  | TsGetTransactions jsval jsval jsval jsval jsval jsval
  | TsGetInternalTransactions jsval jsval jsval jsval jsval jsval
  | TsGetInternalTransactionsByHash jsval
  | TsGetMinedBlock jsval jsval jsval
  | TsGetContractAbi jsval
  | TsGetContractExecutionStatus jsval
  | TsGetTransactionStatus jsval

fun ts_perform :: "env \<Rightarrow> client \<Rightarrow> ts_operation \<Rightarrow> result" where
  "ts_perform E c (TsGetAccountBalance a u) = ts_getAccountBalance E c a u"
| "ts_perform E c (TsGetAccountBalances as u) = ts_getAccountBalances E c as u"
| "ts_perform E c (TsGetTransactions a s e off p so) = ts_getTransactions E c a s e off p so"
| "ts_perform E c (TsGetInternalTransactions a s e off p so) =
     ts_getInternalTransactions E c a s e off p so"
| "ts_perform E c (TsGetInternalTransactionsByHash h) =
     ts_getInternalTransactionsByHash E c h"
| "ts_perform E c (TsGetMinedBlock a off p) = ts_getMinedBlock E c a off p"
| "ts_perform E c (TsGetContractAbi a) = ts_getContractAbi E c a"
| "ts_perform E c (TsGetContractExecutionStatus h) = ts_getContractExecutionStatus E c h"
| "ts_perform E c (TsGetTransactionStatus h) = ts_getTransactionStatus E c h"

text \<open>The requests a trace holds, and the converter calls it holds.\<close>

fun requests :: "event list \<Rightarrow> (jsval \<times> params) list" where
  "requests [] = []"
| "requests (Request h ps # evs) = (h, ps) # requests evs"
| "requests (Convert v f t # evs) = requests evs"

fun conversions :: "event list \<Rightarrow> (jsval \<times> string \<times> string) list" where
  "conversions [] = []"
| "conversions (Request h ps # evs) = conversions evs"
| "conversions (Convert v f t # evs) = (v, f, t) # conversions evs"

section \<open>Decimal numerals\<close>

text \<open>
  The arbitrary-precision decimal arithmetic the converter relies on. A non-negative
  decimal is a pair \<open>(m, k)\<close> of an integer \<open>m \<ge> 0\<close> and a number of decimal places,
  standing for \<open>m / 10 ^ k\<close>; it is normalised when it has no trailing zero after the
  point, so that every value has one representation.
\<close>

definition is_digit :: "char \<Rightarrow> bool" where
  "is_digit c = (let n = (of_char c :: int) in 48 \<le> n \<and> n \<le> 57)"

definition digit_val :: "char \<Rightarrow> int" where
  "digit_val c = of_char c - 48"

definition digits_val :: "string \<Rightarrow> int" where
  "digits_val s = foldl (\<lambda>a c. 10 * a + digit_val c) 0 s"

fun normalise :: "int \<Rightarrow> nat \<Rightarrow> int \<times> nat" where
  "normalise m 0 = (m, 0)"
| "normalise m (Suc k) = (if m mod 10 = 0 then normalise (m div 10) k else (m, Suc k))"

definition normalised :: "int \<times> nat \<Rightarrow> bool" where
  "normalised x = (snd x = 0 \<or> fst x mod 10 \<noteq> 0)"

text \<open>
  A numeral is a non-empty run of digits, optionally followed by a point and a
  non-empty run of digits.
\<close>

definition parse_decimal :: "string \<Rightarrow> (int \<times> nat) option" where
  "parse_decimal s =
     (let ip = takeWhile (\<lambda>c. c \<noteq> CHR ''.'') s;
          rest = dropWhile (\<lambda>c. c \<noteq> CHR ''.'') s;
          fp = tl rest
      in if ip \<noteq> [] \<and> list_all is_digit ip \<and> list_all is_digit fp \<and> (rest = [] \<or> fp \<noteq> [])
         then Some (normalise (digits_val (ip @ fp)) (length fp))
         else None)"

text \<open>
  Plain decimal notation: no exponent, at least one digit before the point, no point
  when there is no fraction.
\<close>

definition render_decimal :: "int \<times> nat \<Rightarrow> string" where
  "render_decimal x =
     (let ds = digits_base 10 (fst x);
          padded = replicate (Suc (snd x) - length ds) (CHR ''0'') @ ds;
          n = length padded - snd x
      in if snd x = 0 then ds else take n padded @ CHR ''.'' # drop n padded)"

text \<open>Multiplication by \<open>10 ^ d\<close> for an integer \<open>d\<close>, exactly.\<close>

definition scale_decimal :: "int \<Rightarrow> int \<times> nat \<Rightarrow> int \<times> nat" where
  "scale_decimal d x =
     (if 0 \<le> d then normalise (fst x * 10 ^ nat d) (snd x)
      else normalise (fst x) (snd x + nat (- d)))"

text \<open>A numeral is canonical when it is the rendering of its own value.\<close>

definition canonical :: "string \<Rightarrow> bool" where
  "canonical s = (case parse_decimal s of None \<Rightarrow> False | Some x \<Rightarrow> render_decimal x = s)"

section \<open>The unit converter\<close>

text \<open>
  Modelled from the spec: \<open>./utils/etherConvert\<close> is not among the source files. The
  spec's contract is \<open>convert(amount, fromUnit, toUnit)\<close> on a decimal string: the
  result is \<open>amount * 10 ^ (exponent[fromUnit] - exponent[toUnit])\<close> rendered as a
  plain decimal string, in exact arithmetic; equal units return the input unchanged; a
  unit that is not in the table fails with \<open>InvalidUnit\<close>. An amount that is not a
  numeral is outside the contract and is reported as \<open>NotANumeral\<close>.
\<close>

definition etherConvert_spec ::
  "(string \<rightharpoonup> nat) \<Rightarrow> string \<Rightarrow> string \<Rightarrow> string \<Rightarrow> error + string" where
  "etherConvert_spec U amount from to =
     (case (U from, U to) of
        (Some ef, Some et) \<Rightarrow>
          if from = to then Inr amount
          else (case parse_decimal amount of
                  None \<Rightarrow> Inl NotANumeral
                | Some x \<Rightarrow> Inr (render_decimal (scale_decimal (int ef - int et) x)))
      | _ \<Rightarrow> Inl InvalidUnit)"

text \<open>\<open>convert(convert(X, A, B), B, A)\<close>.\<close>

definition round_trip ::
  "(string \<rightharpoonup> nat) \<Rightarrow> string \<Rightarrow> string \<Rightarrow> string \<Rightarrow> error + string" where
  "round_trip U X A B =
     (case etherConvert_spec U X A B of
        Inl e \<Rightarrow> Inl e
      | Inr Y \<Rightarrow> etherConvert_spec U Y B A)"

text \<open>The converter as the facade calls it, on a value of the response.\<close>

definition etherConvert_js ::
  "(string \<rightharpoonup> nat) \<Rightarrow> jsval \<Rightarrow> string \<Rightarrow> string \<Rightarrow> error + jsval" where
  "etherConvert_js U v from to =
     (case v of
        JStr s \<Rightarrow>
          (case etherConvert_spec U s from to of Inl e \<Rightarrow> Inl e | Inr r \<Rightarrow> Inr (JStr r))
      | _ \<Rightarrow> (if in_table U from \<and> in_table U to then Inl NotANumeral else Inl InvalidUnit))"

section \<open>The request builder\<close>

text \<open>Hexadecimal digits and their values.\<close>

definition is_hex_digit :: "char \<Rightarrow> bool" where
  "is_hex_digit c =
     (let n = (of_char c :: int)
      in (48 \<le> n \<and> n \<le> 57) \<or> (65 \<le> n \<and> n \<le> 70) \<or> (97 \<le> n \<and> n \<le> 102))"

definition hex_digit_val :: "char \<Rightarrow> int" where
  "hex_digit_val c =
     (let n = (of_char c :: int)
      in if n \<le> 57 then n - 48 else if n \<le> 70 then n - 55 else n - 87)"

definition hex_val :: "string \<Rightarrow> int" where
  "hex_val s = foldl (\<lambda>a c. 16 * a + hex_digit_val c) 0 s"


text \<open>\<open>String(v)\<close>, as a value is turned into text for the query string.\<close>

fun js_String :: "jsval \<Rightarrow> string" where
  "js_String JUndefined = ''undefined''"
| "js_String JNull = ''null''"
| "js_String (JBool b) = (if b then ''true'' else ''false'')"
| "js_String (JNum n) = toString_radix 10 n"
| "js_String JNaN = ''NaN''"
| "js_String (JStr s) = s"
| "js_String (JArr xs) =
     join '','' (map (\<lambda>x. if x = JUndefined \<or> x = JNull then [] else js_String x) xs)"
| "js_String (JObj ps) = ''[object Object]''"

text \<open>
  \<open>encodeURIComponent\<close> on ASCII text: letters, digits and \<open>- _ . ! ~ * ' ( )\<close> stay,
  every other character becomes \<open>%XX\<close>.
\<close>

definition unreserved :: "char \<Rightarrow> bool" where
  "unreserved c =
     (let n = (of_char c :: int)
      in (48 \<le> n \<and> n \<le> 57) \<or> (65 \<le> n \<and> n \<le> 90) \<or> (97 \<le> n \<and> n \<le> 122) \<or>
         List.member [45, 95, 46, 33, 126, 42, 39, 40, 41] n)"

definition percent_encode :: "char \<Rightarrow> string" where
  "percent_encode c =
     (let n = (of_char c :: int)
      in [CHR ''%'', toUpperCase_char (digit_char (n div 16)),
          toUpperCase_char (digit_char (n mod 16))])"

definition encodeURIComponent :: "string \<Rightarrow> string" where
  "encodeURIComponent s =
     concat (map (\<lambda>c. if unreserved c then [c] else percent_encode c) s)"

text \<open>
  Modelled from the spec: \<open>./utils/createRequest\<close> is not among the source files. The
  spec's request builder filters out the entries whose value is \<open>undefined\<close>,
  URL-encodes the remaining entries into the query string, issues one HTTP GET to the
  host with it, and resolves with the \<open>result\<close> field of the envelope when its status
  is the success status \<open>"1"\<close>, rejecting with the envelope's message otherwise. The
  transport is a parameter.
\<close>

definition defined_entries :: "params \<Rightarrow> params" where
  "defined_entries ps = filter (\<lambda>e. snd e \<noteq> JUndefined) ps"

definition query_pairs :: "params \<Rightarrow> (string \<times> string) list" where
  "query_pairs ps = map (\<lambda>e. (fst e, js_String (snd e))) (defined_entries ps)"

text \<open>The text of one entry in the query string, and the query string.\<close>

definition component :: "string \<times> string \<Rightarrow> string" where
  "component kv = encodeURIComponent (fst kv) @ ''='' @ encodeURIComponent (snd kv)"

definition query_string :: "params \<Rightarrow> string" where
  "query_string ps = join ''&'' (map component (query_pairs ps))"





record envelope =
  status :: string
  message :: string
  result :: jsval

definition createRequest_spec ::
  "(jsval \<Rightarrow> string \<Rightarrow> error + envelope) \<Rightarrow> jsval \<Rightarrow> params \<Rightarrow> error + jsval" where
  "createRequest_spec http_get h ps =
     (case http_get h (query_string ps) of
        Inl e \<Rightarrow> Inl e
      | Inr response \<Rightarrow>
          if status response = ''1'' then Inr (result response)
          else Inl (RemoteError (message response)))"

section \<open>An example environment\<close>

text \<open>
  Tables with the four networks the constructors document and the usual units of
  Ether, a transport that answers every request with a given envelope, the converter
  and the request builder above, \<open>toFixed\<close> as bignumber.js renders a hexadecimal or
  decimal numeral, and \<open>getHex\<close> as \<open>'0x' + n.toString(16)\<close> on a number, throwing
  on anything else. The examples do not exercise \<open>JSON.parse\<close>, which is given by the
  simplest function of its type.
\<close>

definition example_tables :: tables where
  "example_tables =
     \<lparr>MODULES = [''ACCOUNT'' \<mapsto> JStr ''account'', ''PROXY'' \<mapsto> JStr ''proxy''],
      ACTIONS = [''GET_BALANCE'' \<mapsto> JStr ''balance'', ''BALANCE'' \<mapsto> JStr ''balance'',
                 ''GET_BALANCE_MULTI'' \<mapsto> JStr ''balancemulti'',
                 ''BALANCE_MULTI'' \<mapsto> JStr ''balancemulti'',
                 ''GET_GAS_PRICE'' \<mapsto> JStr ''eth_gasPrice'',
                 ''GET_STORAGE_AT'' \<mapsto> JStr ''eth_getStorageAt''],
      NETWORKS = [''MAIN'' \<mapsto> JStr ''https://api.etherscan.io/api'',
                  ''ROPSTEN'' \<mapsto> JStr ''https://api-ropsten.etherscan.io/api'',
                  ''KOVAN'' \<mapsto> JStr ''https://api-kovan.etherscan.io/api'',
                  ''RINKEBY'' \<mapsto> JStr ''https://api-rinkeby.etherscan.io/api''],
      UNITS = [''wei'' \<mapsto> 0, ''kwei'' \<mapsto> 3, ''mwei'' \<mapsto> 6, ''gwei'' \<mapsto> 9,
               ''szabo'' \<mapsto> 12, ''finney'' \<mapsto> 15, ''ether'' \<mapsto> 18]\<rparr>"

definition example_toFixed :: "jsval \<Rightarrow> error + jsval" where
  "example_toFixed v =
     (case v of
        JStr s \<Rightarrow>
          if take 2 s = ''0x'' \<and> drop 2 s \<noteq> [] \<and> list_all is_hex_digit (drop 2 s)
          then Inr (JStr (digits_base 10 (hex_val (drop 2 s))))
          else (case parse_decimal s of
                  Some x \<Rightarrow> Inr (JStr (render_decimal x))
                | None \<Rightarrow> Inr (JStr ''NaN''))
      | JNum n \<Rightarrow> Inr (JStr (toString_radix 10 n))
      | _ \<Rightarrow> Inr (JStr ''NaN''))"

definition example_getHex :: "jsval \<Rightarrow> error + jsval" where
  "example_getHex v =
     (case v of JNum n \<Rightarrow> Inr (JStr (''0x'' @ toString_radix 16 n)) | _ \<Rightarrow> Inl TypeError)"

text \<open>
  \<open>parseInt(v, 16)\<close>: the text of the value, leading white space skipped, an optional
  sign, an optional \<open>0x\<close>, then the longest run of hexadecimal digits; \<open>NaN\<close> when
  there is none.
\<close>

definition is_space :: "char \<Rightarrow> bool" where
  "is_space c = List.member [9, 10, 11, 12, 13, 32] (of_char c :: int)"

definition example_parseInt16 :: "jsval \<Rightarrow> jsval" where
  "example_parseInt16 v =
     (let s = dropWhile is_space (js_String v);
          s1 = (if take 1 s = ''-'' \<or> take 1 s = ''+'' then drop 1 s else s);
          s2 = (if take 2 s1 = ''0x'' \<or> take 2 s1 = ''0X'' then drop 2 s1 else s1);
          ds = takeWhile is_hex_digit s2
      in if ds = [] then JNaN
         else JNum (if take 1 s = ''-'' then - hex_val ds else hex_val ds))"

definition ok_envelope :: "jsval \<Rightarrow> envelope" where
  "ok_envelope r = \<lparr>status = ''1'', message = ''OK'', result = r\<rparr>"

definition example_client :: client where
  "example_client = js_constructor example_tables (Some ''YourApiKeyToken'') (Some ''ropsten'')"

definition example_env :: "envelope \<Rightarrow> env" where
  "example_env response =
     \<lparr>tables = example_tables,
      createRequest = createRequest_spec (\<lambda>h q. Inr response),
      etherConvert = etherConvert_js (UNITS example_tables),
      getHex = example_getHex,
      parseInt16 = example_parseInt16,
      JSON_parse = (\<lambda>v. Inl SyntaxError),
      BigNumber_toFixed = example_toFixed\<rparr>"

section \<open>Observations on a call\<close>

text \<open>
  A method passes the remote result through when it has issued one request, called
  nothing else, and returns a promise with exactly the outcome of that request.
\<close>

definition passes_through :: "env \<Rightarrow> result \<Rightarrow> bool" where
  "passes_through E r =
     (case fst r of
        [Request h ps] \<Rightarrow> snd r = ReturnsPromise (createRequest E h ps)
      | _ \<Rightarrow> False)"

text \<open>
  A request goes to a host with a token when the one entry of its mapping under
  \<open>apikey\<close> holds the token.
\<close>

definition request_with :: "jsval \<Rightarrow> string \<Rightarrow> jsval \<times> params \<Rightarrow> bool" where
  "request_with h tok q =
     (fst q = h \<and> map snd (filter (\<lambda>e. fst e = ''apikey'') (snd q)) = [JStr tok])"

text \<open>A call that issues exactly one request, to the host and with the token.\<close>

definition sends_one :: "jsval \<Rightarrow> string \<Rightarrow> result \<Rightarrow> bool" where
  "sends_one h tok r =
     (case requests (fst r) of [q] \<Rightarrow> request_with h tok q | _ \<Rightarrow> False)"

text \<open>A call that throws without having issued a request.\<close>

definition throws_unsent :: "result \<Rightarrow> bool" where
  "throws_unsent r =
     (requests (fst r) = [] \<and> (case snd r of Throws e \<Rightarrow> True | _ \<Rightarrow> False))"

text \<open>
  The arguments an operation of the JavaScript client hands to \<open>getHex\<close> before it
  builds its request, and whether \<open>getHex\<close> returns on all of them.
\<close>

fun hex_arguments :: "js_operation \<Rightarrow> jsval list" where
  "hex_arguments (GetUncleByBlockNumberAndIndex b i) = [b, default_val (JNum 0) i]"
| "hex_arguments (GetBlockTransactionCount b) = [b]"
| "hex_arguments (GetTransactionByBlockNumberAndIndex b i) = [b, default_val (JNum 0) i]"
| "hex_arguments (GetStorageAt a p t) = [p]"
| "hex_arguments _ = []"

definition hex_ok :: "env \<Rightarrow> js_operation \<Rightarrow> bool" where
  "hex_ok E op =
     list_all (\<lambda>v. case getHex E v of Inl e \<Rightarrow> False | Inr h \<Rightarrow> True) (hex_arguments op)"

text \<open>\<open>mapping[key]\<close> on a parameter mapping.\<close>

definition read_key :: "params \<Rightarrow> string \<Rightarrow> jsval" where
  "read_key ps k = (case map_of ps k of None \<Rightarrow> JUndefined | Some v \<Rightarrow> v)"

section \<open>Properties of the facade\<close>

lemmas request_defs = returns_def discards_def js_createRequest_def ts_createRequest_def
  createRequest_call_def Let_def

lemma requests_append: "requests (xs @ ys) = requests xs @ requests ys"
  by (induction xs rule: requests.induct) simp_all

lemma requests_pure_call: "requests (fst (pure_call r)) = []"
  by (simp add: pure_call_def)

lemma requests_etherConvert_call: "requests (fst (etherConvert_call E v f t)) = []"
  by (simp add: etherConvert_call_def)

lemma requests_then_eff:
  assumes "\<And>v. requests (fst (f v)) = []"
  shows "requests (fst (then_eff p f)) = requests (fst p)"
  using assms by (simp add: then_eff_def requests_append split: sum.splits)

lemma requests_map_eff:
  assumes "\<And>x. requests (fst (f x)) = []"
  shows "requests (fst (map_eff f xs)) = []"
proof (induction xs)
  case Nil
  show ?case by simp
next
  case (Cons x xs)
  have "requests (fst (then_eff (map_eff f xs) (\<lambda>ys. pure_call (Inr (y # ys))))) = []" for y
    by (simp add: requests_then_eff requests_pure_call Cons.IH)
  then show ?case
    by (simp add: requests_then_eff assms)
qed

lemma requests_convert_item: "requests (fst (convert_item E u item)) = []"
  by (simp add: convert_item_def requests_then_eff requests_pure_call
      requests_etherConvert_call)

lemma requests_convert_items: "requests (fst (convert_items E u resp)) = []"
  by (cases resp)
    (simp_all add: convert_items_def requests_then_eff requests_pure_call
      requests_map_eff requests_convert_item)

lemma requests_js_createRequest:
  "requests (fst (js_createRequest E c ps)) =
     [(host c, AList.update ''apikey'' (JStr (token c)) ps)]"
  by (simp add: js_createRequest_def createRequest_call_def)

lemma requests_ts_createRequest:
  "requests (fst (ts_createRequest E c ps)) =
     [(host c, AList.update ''apikey'' (JStr (token c)) ps)]"
  by (simp add: ts_createRequest_def createRequest_call_def)

lemma fst_returns: "fst (returns p) = fst p"
  by (simp add: returns_def)

lemma fst_discards: "fst (discards p) = fst p"
  by (simp add: discards_def)

text \<open>
  Writing \<open>apikey\<close> into a mapping with distinct keys leaves one entry of that name.
\<close>

lemma filter_update_distinct:
  "distinct (map fst ps) \<Longrightarrow> filter (\<lambda>e. fst e = k) (AList.update k v ps) = [(k, v)]"
proof (induction ps)
  case Nil
  show ?case by simp
next
  case (Cons p ps)
  show ?case
  proof (cases "fst p = k")
    case True
    with Cons.prems have "k \<notin> fst ` set ps" by auto
    then have "filter (\<lambda>e. fst e = k) ps = []"
      by (auto simp: filter_empty_conv)
    with True show ?thesis by simp
  next
    case False
    with Cons show ?thesis by simp
  qed
qed

lemma values_update_distinct:
  "distinct (map fst ps) \<Longrightarrow>
   map snd (filter (\<lambda>e. fst e = k) (AList.update k v ps)) = [v]"
  by (simp add: filter_update_distinct)

lemmas requests_simps = fst_returns fst_discards requests_then_eff requests_pure_call
  requests_etherConvert_call requests_convert_items requests_js_createRequest
  requests_ts_createRequest values_update_distinct request_with_def Let_def

lemma sends_one_returns:
  "distinct (map fst ps) \<Longrightarrow>
   sends_one (host c) (token c) (returns (js_createRequest E c ps))"
  by (simp add: sends_one_def requests_simps)

lemma sends_one_returns_then:
  assumes "\<And>v. requests (fst (f v)) = []" and "distinct (map fst ps)"
  shows "sends_one (host c) (token c) (returns (then_eff (js_createRequest E c ps) f))"
  using assms by (simp add: sends_one_def requests_simps)

lemma throws_unsent_Throws: "throws_unsent ([], Throws e)"
  by (simp add: throws_unsent_def)

lemmas js_plain_defs =
  js_getAccountBalance_def js_getAccountBalances_def
  js_getTransactions_def js_getInternalTransactions_def
  js_getInternalTransactionsByHash_def js_getMinedBlocks_def js_getContractAbi_def
  js_getContractExecutionStatus_def js_getTransactionStatus_def js_getBlockReward_def
  js_getEventsLogs_def js_getRecentBlockNumber_def js_getBlockByNumber_def
  js_getTransactionByHash_def js_getTransactionCount_def js_sendRawTransaction_def
  js_getTransactionReceipt_def js_call_def js_getCode_def js_getGasPrice_def
  js_estimateGas_def js_getTokenByContractAddress_def
  js_getTokenBalanceByContractAddress_def js_getTotalEtherSupply_def
  js_getEtherLastPrice_def

lemmas js_hex_defs =
  js_getUncleByBlockNumberAndIndex_def js_getBlockTransactionCount_def
  js_getTransactionByBlockNumberAndIndex_def js_getStorageAt_def

lemma js_sends_one:
  assumes "hex_ok E op"
  shows "sends_one (host c) (token c) (js_perform E c op)"
proof (cases op)
  case (GetUncleByBlockNumberAndIndex b i)
  with assms show ?thesis
    by (auto simp: hex_ok_def js_hex_defs with_arg_def Let_def sends_one_returns
        split: sum.splits)
next
  case (GetBlockTransactionCount b)
  with assms show ?thesis
    by (auto simp: hex_ok_def js_hex_defs with_arg_def Let_def sends_one_returns_then
        requests_pure_call split: sum.splits)
next
  case (GetTransactionByBlockNumberAndIndex b i)
  with assms show ?thesis
    by (auto simp: hex_ok_def js_hex_defs with_arg_def Let_def sends_one_returns
        split: sum.splits)
next
  case (GetStorageAt a p t)
  with assms show ?thesis
    by (auto simp: hex_ok_def js_hex_defs with_arg_def Let_def sends_one_returns
        split: sum.splits)
qed (simp_all add: sends_one_def requests_simps js_plain_defs)

lemma js_throws_unsent:
  assumes "\<not> hex_ok E op"
  shows "throws_unsent (js_perform E c op)"
proof (cases op)
  case (GetUncleByBlockNumberAndIndex b i)
  with assms show ?thesis
    by (auto simp: hex_ok_def js_hex_defs with_arg_def Let_def throws_unsent_Throws
        split: sum.splits)
next
  case (GetBlockTransactionCount b)
  with assms show ?thesis
    by (auto simp: hex_ok_def js_hex_defs with_arg_def Let_def throws_unsent_Throws
        split: sum.splits)
next
  case (GetTransactionByBlockNumberAndIndex b i)
  with assms show ?thesis
    by (auto simp: hex_ok_def js_hex_defs with_arg_def Let_def throws_unsent_Throws
        split: sum.splits)
next
  case (GetStorageAt a p t)
  with assms show ?thesis
    by (auto simp: hex_ok_def js_hex_defs with_arg_def Let_def throws_unsent_Throws
        split: sum.splits)
qed (use assms in \<open>simp_all add: hex_ok_def\<close>)

lemma ts_sends_one: "sends_one (host c) (token c) (ts_perform E c op)"
  by (cases op)
    (simp_all add: sends_one_def requests_simps
      ts_getAccountBalance_def ts_getAccountBalances_def ts_getTransactions_def
      ts_getInternalTransactions_def ts_getInternalTransactionsByHash_def
      ts_getMinedBlock_def ts_getContractAbi_def ts_getContractExecutionStatus_def
      ts_getTransactionStatus_def)

lemma token_js_constructor: "token (js_constructor K tok net) = default_arg [] tok"
  by (simp add: js_constructor_def Let_def)

lemma token_ts_constructor:
  "token (ts_constructor K tok net) = default_arg ''YourApiKeyToken'' tok"
  by (simp add: ts_constructor_def Let_def)

lemma then_eff_pure: "then_eff p (\<lambda>v. pure_call (Inr v)) = p"
  by (cases p) (simp add: then_eff_def pure_call_def split: sum.splits)

lemma passes_through_request:
  "passes_through E (returns (createRequest_call E h ps))"
  by (simp add: passes_through_def returns_def createRequest_call_def)

lemma toUpperCase_examples:
  "toUpperCase ''ROPSTEN'' = ''ROPSTEN''"
  "toUpperCase ''ropsten'' = ''ROPSTEN''"
  "toUpperCase ''Ropsten'' = ''ROPSTEN''"
  "toUpperCase ''rOPSTEN'' = ''ROPSTEN''"
  "toUpperCase ''nonexistent'' = ''NONEXISTENT''"
  "toUpperCase ''MAIN'' = ''MAIN''"
  by code_simp+

text \<open>An upper-case name is none of the inherited names.\<close>

lemma toUpperCase_no_lower:
  "c \<in> set (toUpperCase n) \<Longrightarrow> \<not> (97 \<le> (of_char c :: int) \<and> (of_char c :: int) \<le> 122)"
  by (auto simp: toUpperCase_def toUpperCase_char_def Let_def)

lemma inherited_names_have_lower:
  "list_all (list_ex (\<lambda>c. 97 \<le> (of_char c :: int) \<and> (of_char c :: int) \<le> 122))
     Object_prototype_names"
  by code_simp

lemma upper_not_inherited: "toUpperCase n \<notin> set Object_prototype_names"
proof
  assume "toUpperCase n \<in> set Object_prototype_names"
  with inherited_names_have_lower
  have "list_ex (\<lambda>c. 97 \<le> (of_char c :: int) \<and> (of_char c :: int) \<le> 122) (toUpperCase n)"
    by (simp add: list_all_iff)
  then show False
    using toUpperCase_no_lower [of _ n] by (auto simp: list_ex_iff)
qed

lemma js_in_upper: "js_in (toUpperCase n) T = in_table T (toUpperCase n)"
  by (simp add: js_in_def upper_not_inherited)

lemma js_in_examples:
  "js_in ''ROPSTEN'' T = in_table T ''ROPSTEN''"
  "js_in ''NONEXISTENT'' T = in_table T ''NONEXISTENT''"
  "js_in ''MAIN'' T = in_table T ''MAIN''"
  using js_in_upper [of "''ropsten''" T] js_in_upper [of "''nonexistent''" T]
    js_in_upper [of "''MAIN''" T]
  by (simp_all add: toUpperCase_examples)

text \<open>
  The two balance methods, in both clients, test \<open>unit in UNITS\<close> before they convert:
  with a unit of which the test is false they hand the remote result back unchanged and
  call nothing else.
\<close>

lemma balance_methods_guard:
  assumes "\<not> js_in u (UNITS (tables E))"
  shows "passes_through E (js_getAccountBalance E c address (Some u) tag)
       \<and> passes_through E (js_getAccountBalances E c addresses (Some u) tag)
       \<and> passes_through E (ts_getAccountBalance E c address (Some u))
       \<and> passes_through E (ts_getAccountBalances E c addresses (Some u))"
  using assms
  by (simp add: js_getAccountBalance_def js_getAccountBalances_def ts_getAccountBalance_def
      ts_getAccountBalances_def default_arg_def Let_def then_eff_pure js_createRequest_def
      ts_createRequest_def passes_through_request)

text \<open>
  The test is the \<open>in\<close> operator, so it is also true of an inherited name:
  \<open>constructor\<close> is no key of the unit table, and \<open>getAccountBalance\<close> converts to it.
\<close>

lemma getAccountBalance_converts_inherited_name:
  "\<not> in_table (UNITS (tables (example_env (ok_envelope (JStr ''5''))))) ''constructor''
   \<and> conversions (fst (js_getAccountBalance (example_env (ok_envelope (JStr ''5'')))
        example_client (JStr ''0xabc'') (Some ''constructor'') JUndefined)) =
       [(JStr ''5'', ''wei'', ''constructor'')]
   \<and> snd (js_getAccountBalance (example_env (ok_envelope (JStr ''5'')))
        example_client (JStr ''0xabc'') (Some ''constructor'') JUndefined) =
       ReturnsPromise (Inl InvalidUnit)"
  by code_simp

text \<open>
  Claim C1 says that \<open>getAccountBalance\<close>, \<open>getAccountBalances\<close> and \<open>getGasPrice\<close>
  hand the remote result back unchanged, without calling the converter, when the unit
  is not a key of the unit table. \<open>getGasPrice\<close> does not: it compares the unit with
  \<open>'wei'\<close> and has no membership test, unlike the two balance methods. With the unit
  \<open>foo\<close>, which is in no table and no inherited name, and the remote price
  \<open>0x3b9aca00\<close>, it calls the converter with \<open>foo\<close>, and its promise is rejected with
  the converter's error instead of carrying the remote result.
\<close>

theorem getGasPrice_converts_unknown_unit:
  "\<not> in_table (UNITS (tables (example_env (ok_envelope (JStr ''0x3b9aca00''))))) ''foo''
   \<and> \<not> js_in ''foo'' (UNITS (tables (example_env (ok_envelope (JStr ''0x3b9aca00'')))))
   \<and> conversions (fst (js_getGasPrice (example_env (ok_envelope (JStr ''0x3b9aca00'')))
        example_client (Some ''foo''))) = [(JStr ''1000000000'', ''wei'', ''foo'')]
   \<and> snd (js_getGasPrice (example_env (ok_envelope (JStr ''0x3b9aca00'')))
        example_client (Some ''foo'')) = ReturnsPromise (Inl InvalidUnit)
   \<and> \<not> passes_through (example_env (ok_envelope (JStr ''0x3b9aca00'')))
        (js_getGasPrice (example_env (ok_envelope (JStr ''0x3b9aca00''))) example_client
           (Some ''foo''))"
  by code_simp

text \<open>
  Claim C2 says that \<open>sendRawTransaction\<close> and \<open>estimateGas\<close> hand the promise of
  their request back to the caller. The code does not: each issues its one request,
  with the parameters below, and returns \<open>undefined\<close>, so the outcome of the request
  never reaches the caller. Every other method of the client returns its promise.
\<close>

theorem fire_and_forget_returns_undefined:
  "js_sendRawTransaction E c hex =
     ([Request (host c)
         [(''module'', MODULE E ''PROXY''),
          (''action'', ACTION E ''SEND_RAW_TRANSACTION''),
          (''hex'', hex),
          (''apikey'', JStr (token c))]],
      ReturnsUndefined)
   \<and> js_estimateGas E c to val gasPrice gas =
     ([Request (host c)
         [(''module'', MODULE E ''PROXY''),
          (''action'', ACTION E ''ESTIMATE_GAS''),
          (''to'', to),
          (''value'', val),
          (''gasPrice'', gasPrice),
          (''gas'', gas),
          (''apikey'', JStr (token c))]],
      ReturnsUndefined)"
  by (simp add: js_sendRawTransaction_def js_estimateGas_def request_defs)

text \<open>
  Claim C3: in the TypeScript client, \<open>getTransactions\<close>, \<open>getInternalTransactions\<close>
  and \<open>getInternalTransactionsByHash\<close> send a mapping whose \<open>action\<close> entry is the
  module constant and whose \<open>module\<close> entry is the action constant.
\<close>

theorem ts_legacy_lists_transposed_keys:
  "(\<exists>ps. fst (ts_getTransactions E c address startBlock endBlock offset page sort') =
           [Request (host c) ps]
       \<and> map_of ps ''action'' = Some (MODULE E ''ACCOUNT'')
       \<and> map_of ps ''module'' = Some (ACTION E ''TRANSACTIONS_LIST''))
   \<and> (\<exists>ps. fst (ts_getInternalTransactions E c address startBlock endBlock offset page sort') =
           [Request (host c) ps]
       \<and> map_of ps ''action'' = Some (MODULE E ''ACCOUNT'')
       \<and> map_of ps ''module'' = Some (ACTION E ''TRANSACTIONS_LIST_INTERNAL''))
   \<and> (\<exists>ps. fst (ts_getInternalTransactionsByHash E c transactionHash) =
           [Request (host c) ps]
       \<and> map_of ps ''action'' = Some (MODULE E ''ACCOUNT'')
       \<and> map_of ps ''module'' = Some (ACTION E ''TRANSACTIONS_LIST_INTERNAL''))"
  by (simp add: ts_getTransactions_def ts_getInternalTransactions_def
      ts_getInternalTransactionsByHash_def request_defs)

text \<open>
  Claim C7 says that \<open>getEventsLogs\<close> sends the address it is given. The code takes
  the address as its first argument and documents it, and then builds a mapping with no
  \<open>address\<close> entry: whatever the arguments, the one request it issues has none.
\<close>

theorem getEventsLogs_omits_address:
  "\<exists>ps. fst (js_getEventsLogs E c address fromBlock toBlock topic0 topic01operator topic1
              topic12operator topic2 topic23operator topic3 topic02operator) =
           [Request (host c) ps]
       \<and> map_of ps ''address'' = None"
  by (simp add: js_getEventsLogs_def request_defs)

text \<open>
  Claim C10: the TypeScript \<open>getMinedBlock\<close> sends the internal-transaction-list
  constant under \<open>module\<close> and the module constant under \<open>action\<close>, with no block
  type, and its mapping reads at every key as the mapping of \<open>getInternalTransactions\<close>
  called with the same address, offset and page and nothing else; the JavaScript
  \<open>getMinedBlocks\<close> sends the mined-blocks action under \<open>action\<close> with a
  \<open>blocktype\<close> entry, so the two never send the same mapping.
\<close>

theorem getMinedBlock_differs_from_getMinedBlocks:
  "\<exists>ps qs rs.
      fst (ts_getMinedBlock E c address offset page) = [Request (host c) ps]
    \<and> map_of ps ''action'' = Some (MODULE E ''ACCOUNT'')
    \<and> map_of ps ''module'' = Some (ACTION E ''TRANSACTIONS_LIST_INTERNAL'')
    \<and> map_of ps ''blocktype'' = None
    \<and> fst (ts_getInternalTransactions E c address JUndefined JUndefined offset page JUndefined) =
        [Request (host c) qs]
    \<and> (\<forall>k. read_key ps k = read_key qs k)
    \<and> fst (js_getMinedBlocks E c address type_arg offset page) = [Request (host c) rs]
    \<and> map_of rs ''module'' = Some (MODULE E ''ACCOUNT'')
    \<and> map_of rs ''action'' = Some (ACTION E ''GET_MINED_BLOCKS'')
    \<and> map_of rs ''blocktype'' = Some (default_val (JStr ''blocks'') type_arg)
    \<and> ps \<noteq> rs"
  by (simp add: ts_getMinedBlock_def ts_getInternalTransactions_def js_getMinedBlocks_def
      request_defs read_key_def)

text \<open>
  Claim C4: the constructor of either client resolves the network name through its
  upper-case form. A name whose upper-case form is a key of the network table gets that
  key's host, any other name gets the host of \<open>MAIN\<close>, as does a client built without
  a network name; in particular \<open>ROPSTEN\<close> and \<open>ropsten\<close> both get the Ropsten host,
  and \<open>nonexistent\<close> gets the main host.
\<close>

theorem network_resolution:
  "host (js_constructor K t (Some n)) =
     (if in_table (NETWORKS K) (toUpperCase n) then get_prop (NETWORKS K) (toUpperCase n)
      else get_prop (NETWORKS K) ''MAIN'')
   \<and> host (ts_constructor K t (Some n)) =
     (if in_table (NETWORKS K) (toUpperCase n) then get_prop (NETWORKS K) (toUpperCase n)
      else get_prop (NETWORKS K) ''MAIN'')
   \<and> (toUpperCase n = toUpperCase n' \<longrightarrow>
        host (js_constructor K t (Some n)) = host (js_constructor K t (Some n'))
      \<and> host (ts_constructor K t (Some n)) = host (ts_constructor K t (Some n')))
   \<and> (in_table (NETWORKS K) ''ROPSTEN'' \<longrightarrow>
        host (js_constructor K t (Some ''ROPSTEN'')) = get_prop (NETWORKS K) ''ROPSTEN''
      \<and> host (js_constructor K t (Some ''ropsten'')) = get_prop (NETWORKS K) ''ROPSTEN''
      \<and> host (ts_constructor K t (Some ''ROPSTEN'')) = get_prop (NETWORKS K) ''ROPSTEN''
      \<and> host (ts_constructor K t (Some ''ropsten'')) = get_prop (NETWORKS K) ''ROPSTEN'')
   \<and> (\<not> in_table (NETWORKS K) ''NONEXISTENT'' \<longrightarrow>
        host (js_constructor K t (Some ''nonexistent'')) = get_prop (NETWORKS K) ''MAIN''
      \<and> host (ts_constructor K t (Some ''nonexistent'')) = get_prop (NETWORKS K) ''MAIN'')
   \<and> host (js_constructor K t None) = get_prop (NETWORKS K) ''MAIN''
   \<and> host (ts_constructor K t None) = get_prop (NETWORKS K) ''MAIN''"
  by (simp add: js_constructor_def ts_constructor_def default_arg_def Let_def
      toUpperCase_examples js_in_upper js_in_examples)

theorem network_resolution_witness:
  "toUpperCase ''Ropsten'' = toUpperCase ''rOPSTEN''
   \<and> in_table (NETWORKS example_tables) ''ROPSTEN''
   \<and> \<not> in_table (NETWORKS example_tables) ''NONEXISTENT''
   \<and> host (js_constructor example_tables None (Some ''Ropsten'')) =
       JStr ''https://api-ropsten.etherscan.io/api''
   \<and> host (ts_constructor example_tables None (Some ''Ropsten'')) =
       JStr ''https://api-ropsten.etherscan.io/api''
   \<and> host (js_constructor example_tables None (Some ''Ropsten'')) =
       host (js_constructor example_tables None (Some ''rOPSTEN''))
   \<and> host (ts_constructor example_tables None (Some ''Ropsten'')) =
       host (ts_constructor example_tables None (Some ''rOPSTEN''))
   \<and> host (js_constructor example_tables None (Some ''ropsten'')) =
       JStr ''https://api-ropsten.etherscan.io/api''
   \<and> host (ts_constructor example_tables None (Some ''ROPSTEN'')) =
       JStr ''https://api-ropsten.etherscan.io/api''
   \<and> host (js_constructor example_tables None (Some ''nonexistent'')) =
       JStr ''https://api.etherscan.io/api''
   \<and> host (ts_constructor example_tables None (Some ''nonexistent'')) =
       JStr ''https://api.etherscan.io/api''"
proof -
  have r: "in_table (NETWORKS example_tables) ''ROPSTEN''"
    and m: "\<not> in_table (NETWORKS example_tables) ''NONEXISTENT''"
    by (simp_all add: example_tables_def in_table_def)
  have g: "get_prop (NETWORKS example_tables) ''ROPSTEN'' =
        JStr ''https://api-ropsten.etherscan.io/api''"
      "get_prop (NETWORKS example_tables) ''MAIN'' = JStr ''https://api.etherscan.io/api''"
    by (simp_all add: example_tables_def get_prop_def)
  from network_resolution [of example_tables None "''Ropsten''" "''rOPSTEN''"]
    toUpperCase_examples r m g
  show ?thesis by auto
qed

text \<open>
  Claim C6: whatever public operation is called, with whatever arguments, on a client
  built by the constructor of either class with a token (or with none, which gives the
  default token), the operation issues exactly one request; that request goes to the
  client's host, and the one \<open>apikey\<close> entry of its mapping holds that token. The only
  calls that issue no request are those of the four JavaScript operations that encode
  an argument with \<open>getHex\<close>, when \<open>getHex\<close> throws on it: they throw before any
  request is made.
\<close>

theorem every_operation_sends_the_token:
  "(hex_ok E op \<longrightarrow>
      sends_one (host (js_constructor K tok net)) (default_arg [] tok)
        (js_perform E (js_constructor K tok net) op))
   \<and> (\<not> hex_ok E op \<longrightarrow> throws_unsent (js_perform E (js_constructor K tok net) op))
   \<and> sends_one (host (ts_constructor K tok net)) (default_arg ''YourApiKeyToken'' tok)
        (ts_perform E (ts_constructor K tok net) op')"
  using js_sends_one [of E op "js_constructor K tok net"]
    js_throws_unsent [of E op "js_constructor K tok net"]
    ts_sends_one [of "ts_constructor K tok net" E op']
  by (simp add: token_js_constructor token_ts_constructor)

theorem every_operation_sends_the_token_witness:
  "hex_ok (example_env (ok_envelope (JStr ''0x0''))) (GetStorageAt (JStr ''0xabc'') (JNum 255) JUndefined)
   \<and> requests (fst (js_perform (example_env (ok_envelope (JStr ''0x0'')))
        (js_constructor example_tables (Some ''KEY'') (Some ''ropsten''))
        (GetStorageAt (JStr ''0xabc'') (JNum 255) JUndefined))) =
       [(JStr ''https://api-ropsten.etherscan.io/api'',
         [(''module'', JStr ''proxy''), (''action'', JStr ''eth_getStorageAt''),
          (''address'', JStr ''0xabc''), (''position'', JStr ''0xff''),
          (''tag'', JStr ''latest''), (''apikey'', JStr ''KEY'')])]
   \<and> sends_one (JStr ''https://api-ropsten.etherscan.io/api'') ''KEY''
        (js_perform (example_env (ok_envelope (JStr ''0x0'')))
          (js_constructor example_tables (Some ''KEY'') (Some ''ropsten''))
          (GetStorageAt (JStr ''0xabc'') (JNum 255) JUndefined))
   \<and> \<not> hex_ok (example_env (ok_envelope (JStr ''0x0'')))
        (GetBlockTransactionCount JUndefined)
   \<and> throws_unsent (js_perform (example_env (ok_envelope (JStr ''0x0'')))
        (js_constructor example_tables (Some ''KEY'') (Some ''ropsten''))
        (GetBlockTransactionCount JUndefined))
   \<and> sends_one (JStr ''https://api-ropsten.etherscan.io/api'') ''KEY''
        (ts_perform (example_env (ok_envelope (JStr ''0x0'')))
          (ts_constructor example_tables (Some ''KEY'') (Some ''ropsten''))
          (TsGetMinedBlock (JStr ''0xabc'') JUndefined JUndefined))"
proof -
  define E where "E = example_env (ok_envelope (JStr ''0x0''))"
  define c where "c = js_constructor example_tables (Some ''KEY'') (Some ''ropsten'')"
  define c' where "c' = ts_constructor example_tables (Some ''KEY'') (Some ''ropsten'')"
  have ok: "hex_ok E (GetStorageAt (JStr ''0xabc'') (JNum 255) JUndefined)"
    and bad: "\<not> hex_ok E (GetBlockTransactionCount JUndefined)"
    unfolding E_def by code_simp+
  have h: "host c = JStr ''https://api-ropsten.etherscan.io/api''"
      "host c' = JStr ''https://api-ropsten.etherscan.io/api''"
    unfolding c_def c'_def by code_simp+
  have r: "requests (fst (js_perform E c (GetStorageAt (JStr ''0xabc'') (JNum 255) JUndefined))) =
       [(JStr ''https://api-ropsten.etherscan.io/api'',
         [(''module'', JStr ''proxy''), (''action'', JStr ''eth_getStorageAt''),
          (''address'', JStr ''0xabc''), (''position'', JStr ''0xff''),
          (''tag'', JStr ''latest''), (''apikey'', JStr ''KEY'')])]"
    unfolding E_def c_def by code_simp
  from every_operation_sends_the_token
      [of E "GetStorageAt (JStr ''0xabc'') (JNum 255) JUndefined" example_tables
        "Some ''KEY''" "Some ''ropsten''" "TsGetMinedBlock (JStr ''0xabc'') JUndefined JUndefined"]
    every_operation_sends_the_token
      [of E "GetBlockTransactionCount JUndefined" example_tables
        "Some ''KEY''" "Some ''ropsten''" "TsGetMinedBlock (JStr ''0xabc'') JUndefined JUndefined"]
    ok bad h r
  show ?thesis
    unfolding E_def c_def c'_def
    by (simp add: default_arg_def)
qed

section \<open>Properties of the decimal numerals\<close>

lemma digit_val_digit_char: "0 \<le> d \<Longrightarrow> d < 10 \<Longrightarrow> digit_val (digit_char d) = d"
  by (simp add: digit_val_def digit_char_def)

lemma is_digit_digit_char: "0 \<le> d \<Longrightarrow> d < 10 \<Longrightarrow> is_digit (digit_char d)"
  by (simp add: is_digit_def digit_char_def)

lemma point_not_digit: "\<not> is_digit (CHR ''.'')"
  by code_simp

lemma is_digit_not_point: "is_digit c \<Longrightarrow> c \<noteq> CHR ''.''"
  using point_not_digit by auto

lemma digit_val_zero: "digit_val (CHR ''0'') = 0"
  by code_simp

lemma is_digit_zero: "is_digit (CHR ''0'')"
  by code_simp

lemma digits_val_snoc: "digits_val (xs @ [c]) = 10 * digits_val xs + digit_val c"
  by (simp add: digits_val_def)

lemma digits_val_single: "digits_val [c] = digit_val c"
  by (simp add: digits_val_def)

lemma digits_base_nonempty: "digits_base b n \<noteq> []"
  by (subst digits_base.simps) simp

lemma digits_base_all_digits: "0 \<le> n \<Longrightarrow> list_all is_digit (digits_base 10 n)"
proof (induction "10 :: int" n rule: digits_base.induct)
  case (1 n)
  show ?case
  proof (cases "n < 10")
    case True
    with 1(2) show ?thesis
      by (subst digits_base.simps) (simp add: is_digit_digit_char)
  next
    case False
    with 1 have "list_all is_digit (digits_base 10 (n div 10))" by simp
    moreover have "is_digit (digit_char (n mod 10))"
      by (simp add: is_digit_digit_char)
    ultimately show ?thesis
      using False by (subst digits_base.simps) simp
  qed
qed

lemma digits_val_digits_base: "0 \<le> n \<Longrightarrow> digits_val (digits_base 10 n) = n"
proof (induction "10 :: int" n rule: digits_base.induct)
  case (1 n)
  show ?case
  proof (cases "n < 10")
    case True
    with 1(2) show ?thesis
      by (subst digits_base.simps) (simp add: digits_val_single digit_val_digit_char)
  next
    case False
    with 1 have "digits_val (digits_base 10 (n div 10)) = n div 10" by simp
    moreover have "digit_val (digit_char (n mod 10)) = n mod 10"
      by (simp add: digit_val_digit_char)
    ultimately show ?thesis
      using False by (subst digits_base.simps) (simp add: digits_val_snoc)
  qed
qed

lemma foldl_zeros:
  "foldl (\<lambda>a c. 10 * a + digit_val c) 0 (replicate z (CHR ''0'')) = (0 :: int)"
  by (induction z) (simp_all add: digit_val_zero)

lemma digits_val_leading_zeros: "digits_val (replicate z (CHR ''0'') @ ds) = digits_val ds"
  by (simp add: digits_val_def foldl_zeros)

lemma foldl_digits_nonneg:
  "list_all is_digit s \<Longrightarrow> 0 \<le> a \<Longrightarrow> 0 \<le> foldl (\<lambda>a c. 10 * a + digit_val c) (a :: int) s"
proof (induction s arbitrary: a)
  case Nil
  then show ?case by simp
next
  case (Cons c s)
  from Cons.prems have "0 \<le> digit_val c"
    by (simp add: is_digit_def digit_val_def Let_def)
  with Cons show ?case by simp
qed

lemma digits_val_nonneg: "list_all is_digit s \<Longrightarrow> 0 \<le> digits_val s"
  by (simp add: digits_val_def foldl_digits_nonneg)

lemma normalise_normalised: "normalised (normalise m k)"
  by (induction k arbitrary: m) (simp_all add: normalised_def)

lemma normalise_id: "normalised (m, k) \<Longrightarrow> normalise m k = (m, k)"
  by (cases k) (simp_all add: normalised_def)

lemma normalise_value: "normalise m k = (m', k') \<Longrightarrow> m' * 10 ^ k = m * 10 ^ k'"
proof (induction k arbitrary: m)
  case 0
  then show ?case by simp
next
  case (Suc k)
  show ?case
  proof (cases "m mod 10 = 0")
    case True
    with Suc.prems have "normalise (m div 10) k = (m', k')" by simp
    then have "m' * 10 ^ k = (m div 10) * 10 ^ k'" by (rule Suc.IH)
    moreover from True have "10 * (m div 10) = m" by presburger
    ultimately show ?thesis
      by (metis mult.assoc mult.commute power_Suc)
  next
    case False
    with Suc.prems show ?thesis by simp
  qed
qed

lemma normalise_nonneg: "0 \<le> m \<Longrightarrow> 0 \<le> fst (normalise m k)"
  by (induction k arbitrary: m) (simp_all add: pos_imp_zdiv_nonneg_iff)

lemma normalised_less_absurd:
  assumes "k < k'" and "normalised (m', k')" and "m * 10 ^ k' = m' * 10 ^ k"
  shows False
proof -
  from assms(1) obtain j where k': "k' = k + Suc j"
    by (metis less_iff_Suc_add add_Suc_right)
  from assms(3) have "(m * 10 ^ Suc j) * 10 ^ k = m' * 10 ^ k"
    by (simp add: k' power_add mult.assoc mult.left_commute)
  then have "m * 10 ^ Suc j = m'" by simp
  then have "m' mod 10 = 0" by auto
  with assms(1,2) show False by (simp add: normalised_def)
qed

lemma normalised_unique:
  assumes "normalised (m, k)" and "normalised (m', k')" and "m * 10 ^ k' = m' * 10 ^ k"
  shows "(m, k) = (m', k')"
proof -
  have "\<not> k < k'" using normalised_less_absurd [OF _ assms(2,3)] by blast
  moreover have "\<not> k' < k" using normalised_less_absurd [OF _ assms(1) assms(3) [symmetric]] by blast
  ultimately have "k = k'" by simp
  with assms(3) show ?thesis by simp
qed


lemma render_decimal_integer: "render_decimal (m, 0) = digits_base 10 m"
  by (simp add: render_decimal_def)

lemma parse_decimal_digits:
  assumes "s \<noteq> []" and "list_all is_digit s"
  shows "parse_decimal s = Some (digits_val s, 0)"
proof -
  have "\<forall>c\<in>set s. c \<noteq> CHR ''.''"
    using assms(2) by (auto simp: list_all_iff dest: is_digit_not_point)
  then have tw: "takeWhile (\<lambda>c. c \<noteq> CHR ''.'') s = s"
    and dw: "dropWhile (\<lambda>c. c \<noteq> CHR ''.'') s = []"
    by simp_all
  show ?thesis
    unfolding parse_decimal_def Let_def tw dw using assms by simp
qed

lemma parse_decimal_point:
  assumes "ip \<noteq> []" and "list_all is_digit ip" and "fp \<noteq> []" and "list_all is_digit fp"
  shows "parse_decimal (ip @ CHR ''.'' # fp) =
           Some (normalise (digits_val (ip @ fp)) (length fp))"
proof -
  have "\<forall>c\<in>set ip. c \<noteq> CHR ''.''"
    using assms(2) by (auto simp: list_all_iff dest: is_digit_not_point)
  then have tw: "takeWhile (\<lambda>c. c \<noteq> CHR ''.'') (ip @ CHR ''.'' # fp) = ip"
    and dw: "dropWhile (\<lambda>c. c \<noteq> CHR ''.'') (ip @ CHR ''.'' # fp) = CHR ''.'' # fp"
    by (simp_all add: takeWhile_tail dropWhile_append3)
  show ?thesis
    unfolding parse_decimal_def Let_def tw dw using assms by simp
qed

lemma parse_render:
  assumes "0 \<le> m" and "normalised (m, k)"
  shows "parse_decimal (render_decimal (m, k)) = Some (m, k)"
proof (cases k)
  case 0
  with assms show ?thesis
    by (simp add: render_decimal_integer parse_decimal_digits digits_base_nonempty
        digits_base_all_digits digits_val_digits_base)
next
  case (Suc j)
  define ds where "ds = digits_base 10 m"
  define padded where "padded = replicate (Suc k - length ds) (CHR ''0'') @ ds"
  define n where "n = length padded - k"
  have len: "k < length padded"
    by (simp add: padded_def)
  have "list_all is_digit ds"
    using assms(1) by (simp add: ds_def digits_base_all_digits)
  then have digits: "list_all is_digit padded"
    by (auto simp: padded_def list_all_iff is_digit_zero)
  have val: "digits_val padded = m"
    using assms(1) by (simp add: padded_def ds_def digits_val_leading_zeros digits_val_digits_base)
  have ip: "take n padded \<noteq> []" "list_all is_digit (take n padded)"
    using len digits by (auto simp: n_def list_all_iff dest: in_set_takeD)
  have fp: "drop n padded \<noteq> []" "list_all is_digit (drop n padded)" "length (drop n padded) = k"
    using len digits Suc by (auto simp: n_def list_all_iff dest: in_set_dropD)
  have "render_decimal (m, k) = take n padded @ CHR ''.'' # drop n padded"
    using Suc by (simp add: render_decimal_def Let_def ds_def padded_def n_def)
  then have "parse_decimal (render_decimal (m, k)) = Some (normalise (digits_val padded) k)"
    using parse_decimal_point [OF ip fp(1,2)] fp(3) by simp
  with val assms(2) show ?thesis
    by (simp add: normalise_id)
qed

lemma parse_decimal_normalised:
  assumes "parse_decimal s = Some x"
  shows "normalised x" and "0 \<le> fst x"
proof -
  define ip where "ip = takeWhile (\<lambda>c. c \<noteq> CHR ''.'') s"
  define fp where "fp = tl (dropWhile (\<lambda>c. c \<noteq> CHR ''.'') s)"
  from assms have x: "x = normalise (digits_val (ip @ fp)) (length fp)"
    and d: "list_all is_digit ip" "list_all is_digit fp"
    by (auto simp: parse_decimal_def Let_def ip_def fp_def split: if_splits)
  show "normalised x" by (simp add: x normalise_normalised)
  from d have "0 \<le> digits_val (ip @ fp)"
    by (intro digits_val_nonneg) simp
  then show "0 \<le> fst x" by (simp add: x normalise_nonneg)
qed

lemma scale_decimal_normalised: "normalised (scale_decimal d x)"
  by (simp add: scale_decimal_def normalise_normalised)

lemma scale_decimal_nonneg: "0 \<le> fst x \<Longrightarrow> 0 \<le> fst (scale_decimal d x)"
  by (simp add: scale_decimal_def normalise_nonneg)

lemma scale_up_down:
  assumes "normalised (m, k)"
  shows "normalise (fst (normalise (m * 10 ^ e) k)) (snd (normalise (m * 10 ^ e) k) + e) = (m, k)"
proof -
  obtain m1 k1 where s1: "normalise (m * 10 ^ e) k = (m1, k1)" by (cases "normalise (m * 10 ^ e) k")
  obtain m2 k2 where s2: "normalise m1 (k1 + e) = (m2, k2)" by (cases "normalise m1 (k1 + e)")
  from normalise_value [OF s1] have v1: "m1 * 10 ^ k = m * 10 ^ e * 10 ^ k1" .
  from normalise_value [OF s2] have v2: "m2 * 10 ^ (k1 + e) = m1 * 10 ^ k2" .
  have "(m2 * 10 ^ k) * 10 ^ (k1 + e) = (m2 * 10 ^ (k1 + e)) * 10 ^ k"
    by (simp add: mult.assoc mult.left_commute mult.commute)
  also have "\<dots> = (m1 * 10 ^ k) * 10 ^ k2"
    by (simp add: v2 mult.assoc mult.left_commute mult.commute)
  also have "\<dots> = (m * 10 ^ k2) * 10 ^ (k1 + e)"
    by (simp add: v1 power_add mult.assoc mult.left_commute mult.commute)
  finally have "m2 * 10 ^ k = m * 10 ^ k2" by simp
  moreover have "normalised (m2, k2)" using normalise_normalised [of m1 "k1 + e"] by (simp add: s2)
  ultimately have "(m2, k2) = (m, k)"
    using assms by (intro normalised_unique) simp_all
  then show ?thesis by (simp add: s1 s2)
qed

lemma scale_down_up:
  assumes "normalised (m, k)"
  shows "normalise (fst (normalise m (k + e)) * 10 ^ e) (snd (normalise m (k + e))) = (m, k)"
proof -
  obtain m1 k1 where s1: "normalise m (k + e) = (m1, k1)" by (cases "normalise m (k + e)")
  obtain m2 k2 where s2: "normalise (m1 * 10 ^ e) k1 = (m2, k2)" by (cases "normalise (m1 * 10 ^ e) k1")
  from normalise_value [OF s1] have v1: "m1 * 10 ^ (k + e) = m * 10 ^ k1" .
  from normalise_value [OF s2] have v2: "m2 * 10 ^ k1 = m1 * 10 ^ e * 10 ^ k2" .
  have "(m2 * 10 ^ k) * 10 ^ k1 = (m2 * 10 ^ k1) * 10 ^ k"
    by (simp add: mult.assoc mult.left_commute mult.commute)
  also have "\<dots> = (m1 * 10 ^ (k + e)) * 10 ^ k2"
    by (simp add: v2 power_add mult.assoc mult.left_commute mult.commute)
  also have "\<dots> = (m * 10 ^ k2) * 10 ^ k1"
    by (simp add: v1 mult.assoc mult.left_commute mult.commute)
  finally have "m2 * 10 ^ k = m * 10 ^ k2" by simp
  moreover have "normalised (m2, k2)" using normalise_normalised [of "m1 * 10 ^ e" k1] by (simp add: s2)
  ultimately have "(m2, k2) = (m, k)"
    using assms by (intro normalised_unique) simp_all
  then show ?thesis by (simp add: s1 s2)
qed

lemma scale_decimal_inverse:
  assumes "normalised x"
  shows "scale_decimal (- d) (scale_decimal d x) = x"
proof -
  obtain m k where x: "x = (m, k)" by (cases x)
  consider "d = 0" | "0 < d" | "d < 0" by linarith
  then show ?thesis
  proof cases
    case 1
    with assms show ?thesis by (simp add: scale_decimal_def x normalise_id)
  next
    case 2
    with assms scale_up_down [of m k "nat d"] show ?thesis
      by (simp add: scale_decimal_def x)
  next
    case 3
    with assms scale_down_up [of m k "nat (- d)"] show ?thesis
      by (simp add: scale_decimal_def x)
  qed
qed


section \<open>Properties of the unit converter\<close>

lemma round_trip_renders:
  assumes "U A = Some ea" and "U B = Some eb" and "A \<noteq> B" and "parse_decimal X = Some x"
  shows "round_trip U X A B = Inr (render_decimal x)"
proof -
  define d where "d = int ea - int eb"
  define y where "y = scale_decimal d x"
  have y: "normalised y" "0 \<le> fst y"
    using parse_decimal_normalised [OF assms(4)]
    by (simp_all add: y_def scale_decimal_normalised scale_decimal_nonneg)
  then have "parse_decimal (render_decimal y) = Some y"
    using parse_render [of "fst y" "snd y"] by simp
  moreover have "scale_decimal (int eb - int ea) y = x"
    using scale_decimal_inverse [of x d] parse_decimal_normalised(1) [OF assms(4)]
    by (simp add: y_def d_def)
  ultimately show ?thesis
    using assms by (auto simp: round_trip_def etherConvert_spec_def d_def y_def)
qed

text \<open>
  Claim C8: for units \<open>A\<close> and \<open>B\<close> of the table and every decimal amount string \<open>X\<close>,
  converting \<open>X\<close> from \<open>A\<close> to \<open>B\<close> and the result back to \<open>A\<close> succeeds and gives
  the amount \<open>X\<close> exactly: the string that comes back reads as the same decimal value,
  no digit is lost. It is the plain rendering of that value, and it is the string \<open>X\<close>
  itself when the two units are the same or \<open>X\<close> is canonical.
\<close>

theorem etherConvert_round_trip_exact:
  assumes "in_table U A" and "in_table U B" and "parse_decimal X = Some x"
  shows "\<exists>Z. round_trip U X A B = Inr Z
           \<and> parse_decimal Z = Some x
           \<and> (A \<noteq> B \<longrightarrow> Z = render_decimal x)
           \<and> (A = B \<or> canonical X \<longrightarrow> Z = X)"
proof -
  from assms obtain ea eb where e: "U A = Some ea" "U B = Some eb"
    by (auto simp: in_table_def)
  show ?thesis
  proof (cases "A = B")
    case True
    with e assms(3) show ?thesis
      by (simp add: round_trip_def etherConvert_spec_def)
  next
    case False
    have "round_trip U X A B = Inr (render_decimal x)"
      using e False assms(3) by (rule round_trip_renders)
    moreover have "parse_decimal (render_decimal x) = Some x"
      using parse_decimal_normalised [OF assms(3)] parse_render [of "fst x" "snd x"] by simp
    moreover have "canonical X \<longrightarrow> render_decimal x = X"
      using assms(3) by (simp add: canonical_def)
    ultimately show ?thesis
      using False by simp
  qed
qed

theorem etherConvert_round_trip_exact_witness:
  "in_table (UNITS example_tables) ''ether'' \<and> in_table (UNITS example_tables) ''gwei''
   \<and> parse_decimal ''1.5'' = Some (15, 1) \<and> canonical ''1.5''
   \<and> etherConvert_spec (UNITS example_tables) ''1.5'' ''ether'' ''gwei'' = Inr ''1500000000''
   \<and> round_trip (UNITS example_tables) ''1.5'' ''ether'' ''gwei'' = Inr ''1.5''
   \<and> parse_decimal ''1.0'' = Some (1, 0)
   \<and> etherConvert_spec (UNITS example_tables) ''1.0'' ''ether'' ''gwei'' = Inr ''1000000000''
   \<and> round_trip (UNITS example_tables) ''1.0'' ''ether'' ''gwei'' = Inr ''1''
   \<and> parse_decimal ''1'' = Some (1, 0)"
proof -
  have h: "in_table (UNITS example_tables) ''ether''" "in_table (UNITS example_tables) ''gwei''"
    by (simp_all add: example_tables_def in_table_def)
  have p: "parse_decimal ''1.5'' = Some (15, 1)" "parse_decimal ''1.0'' = Some (1, 0)"
      "parse_decimal ''1'' = Some (1, 0)"
    by code_simp+
  have c: "canonical ''1.5''" "render_decimal (1, 0) = ''1''"
    by code_simp+
  have v: "etherConvert_spec (UNITS example_tables) ''1.5'' ''ether'' ''gwei'' = Inr ''1500000000''"
      "etherConvert_spec (UNITS example_tables) ''1.0'' ''ether'' ''gwei'' = Inr ''1000000000''"
    by code_simp+
  from etherConvert_round_trip_exact [OF h p(1)] etherConvert_round_trip_exact [OF h p(2)]
    h p c v
  show ?thesis by auto
qed

section \<open>Properties of the balance query\<close>

lemma two_ether_in_wei:
  "U ''wei'' = Some 0 \<Longrightarrow> U ''ether'' = Some 18 \<Longrightarrow>
   etherConvert_js U (JStr ''2000000000000000000'') ''wei'' ''ether'' = Inr (JStr ''2'')"
proof -
  assume u: "U ''wei'' = Some 0" "U ''ether'' = Some 18"
  have "render_decimal (scale_decimal (- 18) (2000000000000000000, 0)) = ''2''"
    by code_simp
  moreover have "parse_decimal ''2000000000000000000'' = Some (2000000000000000000, 0)"
    by code_simp
  ultimately show ?thesis
    using u by (simp add: etherConvert_js_def etherConvert_spec_def)
qed

text \<open>
  Claim C5: when the remote call resolves with \<open>r\<close>, \<open>getAccountBalance\<close> with a unit
  of the table other than \<open>wei\<close> calls the converter once, from \<open>wei\<close> to that unit,
  and returns its result; with the unit \<open>wei\<close>, or none, it returns \<open>r\<close> unchanged.
  With the converter of the spec, a table in which \<open>wei\<close> has exponent 0 and \<open>ether\<close>
  exponent 18, and \<open>r\<close> the string \<open>2000000000000000000\<close>, the unit \<open>ether\<close> gives
  the string \<open>2\<close>. This holds for both clients.
\<close>

theorem getAccountBalance_converts_from_wei:
  assumes remote: "\<forall>h ps. createRequest E h ps = Inr r"
  shows "(etherConvert E = etherConvert_js (UNITS (tables E))
          \<and> UNITS (tables E) ''wei'' = Some 0 \<and> UNITS (tables E) ''ether'' = Some 18
          \<and> r = JStr ''2000000000000000000'' \<longrightarrow>
            snd (js_getAccountBalance E c address (Some ''ether'') tag) =
              ReturnsPromise (Inr (JStr ''2''))
          \<and> snd (ts_getAccountBalance E c address (Some ''ether'')) =
              ReturnsPromise (Inr (JStr ''2'')))
       \<and> (u \<noteq> ''wei'' \<and> in_table (UNITS (tables E)) u \<longrightarrow>
            snd (js_getAccountBalance E c address (Some u) tag) =
              ReturnsPromise (etherConvert E r ''wei'' u)
          \<and> conversions (fst (js_getAccountBalance E c address (Some u) tag)) =
              [(r, ''wei'', u)]
          \<and> snd (ts_getAccountBalance E c address (Some u)) =
              ReturnsPromise (etherConvert E r ''wei'' u)
          \<and> conversions (fst (ts_getAccountBalance E c address (Some u))) =
              [(r, ''wei'', u)])
       \<and> snd (js_getAccountBalance E c address (Some ''wei'') tag) = ReturnsPromise (Inr r)
       \<and> passes_through E (js_getAccountBalance E c address (Some ''wei'') tag)
       \<and> passes_through E (js_getAccountBalance E c address None tag)
       \<and> snd (ts_getAccountBalance E c address (Some ''wei'')) = ReturnsPromise (Inr r)
       \<and> passes_through E (ts_getAccountBalance E c address (Some ''wei''))
       \<and> passes_through E (ts_getAccountBalance E c address None)"
proof -
  have wei: "passes_through E (js_getAccountBalance E c address (Some ''wei'') tag)"
      "passes_through E (js_getAccountBalance E c address None tag)"
      "passes_through E (ts_getAccountBalance E c address (Some ''wei''))"
      "passes_through E (ts_getAccountBalance E c address None)"
    by (simp_all add: js_getAccountBalance_def ts_getAccountBalance_def default_arg_def
        Let_def then_eff_pure js_createRequest_def ts_createRequest_def
        passes_through_request)
  have wei_val: "snd (js_getAccountBalance E c address (Some ''wei'') tag) = ReturnsPromise (Inr r)"
      "snd (ts_getAccountBalance E c address (Some ''wei'')) = ReturnsPromise (Inr r)"
    using remote
    by (simp_all add: js_getAccountBalance_def ts_getAccountBalance_def default_arg_def
        Let_def then_eff_pure js_createRequest_def ts_createRequest_def returns_def
        createRequest_call_def)
  have conv: "snd (js_getAccountBalance E c address (Some v) tag) =
        ReturnsPromise (etherConvert E r ''wei'' v)
      \<and> conversions (fst (js_getAccountBalance E c address (Some v) tag)) = [(r, ''wei'', v)]
      \<and> snd (ts_getAccountBalance E c address (Some v)) =
        ReturnsPromise (etherConvert E r ''wei'' v)
      \<and> conversions (fst (ts_getAccountBalance E c address (Some v))) = [(r, ''wei'', v)]"
    if "v \<noteq> ''wei''" "in_table (UNITS (tables E)) v" for v
    using that remote
    by (simp add: js_getAccountBalance_def ts_getAccountBalance_def default_arg_def
        Let_def js_createRequest_def ts_createRequest_def returns_def
        createRequest_call_def then_eff_def etherConvert_call_def js_in_def)
  have ether: "snd (js_getAccountBalance E c address (Some ''ether'') tag) =
        ReturnsPromise (Inr (JStr ''2''))
      \<and> snd (ts_getAccountBalance E c address (Some ''ether'')) =
        ReturnsPromise (Inr (JStr ''2''))"
    if "etherConvert E = etherConvert_js (UNITS (tables E))"
      "UNITS (tables E) ''wei'' = Some 0" "UNITS (tables E) ''ether'' = Some 18"
      "r = JStr ''2000000000000000000''"
    using conv [of "''ether''"] that two_ether_in_wei [OF that(2,3)]
    by (simp add: in_table_def)
  from wei wei_val conv [of u] ether show ?thesis by blast
qed

theorem getAccountBalance_converts_from_wei_witness:
  "(\<forall>h ps. createRequest (example_env (ok_envelope (JStr ''2000000000000000000''))) h ps =
       Inr (JStr ''2000000000000000000''))
   \<and> etherConvert (example_env (ok_envelope (JStr ''2000000000000000000''))) =
       etherConvert_js (UNITS (tables (example_env (ok_envelope (JStr ''2000000000000000000'')))))
   \<and> UNITS (tables (example_env (ok_envelope (JStr ''2000000000000000000'')))) ''wei'' = Some 0
   \<and> UNITS (tables (example_env (ok_envelope (JStr ''2000000000000000000'')))) ''ether'' = Some 18
   \<and> in_table (UNITS (tables (example_env (ok_envelope (JStr ''2000000000000000000''))))) ''gwei''
   \<and> snd (js_getAccountBalance (example_env (ok_envelope (JStr ''2000000000000000000'')))
        example_client (JStr ''0xabc'') (Some ''ether'') JUndefined) =
       ReturnsPromise (Inr (JStr ''2''))
   \<and> snd (ts_getAccountBalance (example_env (ok_envelope (JStr ''2000000000000000000'')))
        example_client (JStr ''0xabc'') (Some ''ether'')) =
       ReturnsPromise (Inr (JStr ''2''))
   \<and> snd (js_getAccountBalance (example_env (ok_envelope (JStr ''2000000000000000000'')))
        example_client (JStr ''0xabc'') (Some ''gwei'') JUndefined) =
       ReturnsPromise (Inr (JStr ''2000000000''))
   \<and> snd (js_getAccountBalance (example_env (ok_envelope (JStr ''2000000000000000000'')))
        example_client (JStr ''0xabc'') (Some ''wei'') JUndefined) =
       ReturnsPromise (Inr (JStr ''2000000000000000000''))"
proof -
  define E where "E = example_env (ok_envelope (JStr ''2000000000000000000''))"
  have remote: "\<forall>h ps. createRequest E h ps = Inr (JStr ''2000000000000000000'')"
    by (simp add: E_def example_env_def createRequest_spec_def ok_envelope_def)
  have env: "etherConvert E = etherConvert_js (UNITS (tables E))"
      "UNITS (tables E) ''wei'' = Some 0" "UNITS (tables E) ''ether'' = Some 18"
      "in_table (UNITS (tables E)) ''gwei''"
    by (simp_all add: E_def example_env_def example_tables_def in_table_def)
  have gwei: "etherConvert E (JStr ''2000000000000000000'') ''wei'' ''gwei'' =
      Inr (JStr ''2000000000'')"
    unfolding E_def by code_simp
  from getAccountBalance_converts_from_wei [OF remote, of example_client "JStr ''0xabc''" JUndefined "''gwei''"] remote env gwei
  show ?thesis
    unfolding E_def by simp
qed


section \<open>Properties of the request builder\<close>

























end
